theory Spec2Isabelle
  imports Complex_Main "HOL-Library.Word"
begin

unbundle bit_operations_syntax

section \<open>Characters, C strings and the C library\<close>

text \<open>
  Bytes are \<^typ>\<open>char\<close>. A C array of bytes is a \<^typ>\<open>char list\<close> of the array's
  length; the C string at an index runs to the first NUL. Stores into an array are
  checked: a store at or beyond the array's length is the fault \<open>OutOfBounds\<close>.
  Reads go through \<open>byte_at\<close>, which gives NUL beyond the array: the buffers below hold
  a NUL inside the array whenever they are scanned.
\<close>

datatype fault = OutOfBounds | OutOfFuel | Unmodelled

definition NUL :: char where
  "NUL = CHR 0x00"

definition NL :: char where
  "NL = CHR 0x0A"

definition byte_at :: "char list \<Rightarrow> nat \<Rightarrow> char" where
  "byte_at buf i = (if i < length buf then buf ! i else NUL)"

definition store :: "char list \<Rightarrow> nat \<Rightarrow> char \<Rightarrow> fault + char list" where
  "store buf i v = (if i < length buf then Inr (buf[i := v]) else Inl OutOfBounds)"

definition cstr_at :: "char list \<Rightarrow> nat \<Rightarrow> string" where
  "cstr_at buf i = takeWhile (\<lambda>b. b \<noteq> NUL) (drop i buf)"

text \<open>\<open>isspace\<close> of the C locale: space, \<open>\t\<close>, \<open>\n\<close>, \<open>\v\<close>, \<open>\f\<close>, \<open>\r\<close>.\<close>

definition isspace :: "char \<Rightarrow> bool" where
  "isspace b = (b = CHR 0x20 \<or> b = CHR 0x09 \<or> b = CHR 0x0A \<or> b = CHR 0x0B \<or> b = CHR 0x0C \<or> b = CHR 0x0D)"

text \<open>The value of a digit in bases up to 36; 36 for a byte that is no digit.\<close>

definition digit_value :: "char \<Rightarrow> nat" where
  "digit_value b =
     (let n = (of_char b :: nat) in
      if 48 \<le> n \<and> n \<le> 57 then n - 48
      else if 97 \<le> n \<and> n \<le> 122 then n - 87
      else if 65 \<le> n \<and> n \<le> 90 then n - 55
      else 36)"

definition LONG_MAX :: int where
  "LONG_MAX = 2147483647"

definition LONG_MIN :: int where
  "LONG_MIN = - 2147483648"

text \<open>
  \<open>strtol(s, 0, 0)\<close> of the C library, for a 32-bit \<open>long\<close>: white space is skipped, a
  sign is read, base 0 takes the prefix \<open>0x\<close>/\<open>0X\<close> (before a hexadecimal digit) as
  base 16, a leading \<open>0\<close> as base 8 and anything else as base 10; the longest run of
  digits of that base is the value, saturating at \<open>LONG_MIN\<close> and \<open>LONG_MAX\<close>; no
  digits give 0.
\<close>

definition strtol_digits :: "nat \<Rightarrow> string \<Rightarrow> int" where
  "strtol_digits base s =
     int (foldl (\<lambda>a b. a * base + digit_value b) 0 (takeWhile (\<lambda>b. digit_value b < base) s))"

definition strtol :: "string \<Rightarrow> int" where
  "strtol s =
     (let s1 = dropWhile isspace s;
          neg = (s1 \<noteq> [] \<and> hd s1 = CHR ''-'');
          s2 = (if s1 \<noteq> [] \<and> (hd s1 = CHR ''-'' \<or> hd s1 = CHR ''+'') then tl s1 else s1);
          v = (if length s2 \<ge> 3 \<and> hd s2 = CHR ''0'' \<and> (s2 ! 1 = CHR ''x'' \<or> s2 ! 1 = CHR ''X'')
                  \<and> digit_value (s2 ! 2) < 16
               then strtol_digits 16 (drop 2 s2)
               else if s2 \<noteq> [] \<and> hd s2 = CHR ''0'' then strtol_digits 8 s2
               else strtol_digits 10 s2);
          r = (if neg then - v else v)
      in max LONG_MIN (min LONG_MAX r))"

text \<open>The text \<open>printf\<close> writes for \<open>%d\<close>.\<close>

fun show_nat :: "nat \<Rightarrow> string" where
  "show_nat n = (if n < 10 then [char_of (48 + n)] else show_nat (n div 10) @ [char_of (48 + n mod 10)])"

declare show_nat.simps [simp del]

definition show_int :: "int \<Rightarrow> string" where
  "show_int i = (if i < 0 then CHR ''-'' # show_nat (nat (- i)) else show_nat (nat i))"

text \<open>
  \<open>snprintf(buf, n, ...)\<close> with the formatted text \<open>s\<close> (which holds no NUL): at most
  \<open>n - 1\<close> bytes of \<open>s\<close> and a NUL are stored from index 0; nothing is stored when
  \<open>n = 0\<close>.
\<close>

definition snprintf :: "char list \<Rightarrow> nat \<Rightarrow> string \<Rightarrow> fault + char list" where
  "snprintf buf n s =
     (if n = 0 then Inr buf
      else let out = take (n - 1) s @ [NUL]
           in if length out \<le> length buf then Inr (out @ drop (length out) buf)
              else Inl OutOfBounds)"

section \<open>GCodeBuffer\<close>

text \<open>
  Modelled from the spec: the state of a command buffer and the inline members
  \<open>SetFinished\<close>, \<open>Active\<close> and \<open>GetIValue\<close> of the class declaration, which is not
  among the sources. A handler that returns retry leaves its buffer active
  (\<open>executing\<close>); one that returns done releases it (\<open>idle\<close>). \<open>GetIValue\<close> is
  \<open>GetLValue\<close> converted to \<open>int\<close>, of the same 32 bits.

  \<open>hostMessages\<close> collects the texts the buffer sends to its platform with
  \<open>platform->Message(HOST_MESSAGE, ...)\<close>, oldest first.
\<close>

datatype GCodeState = idle | executing | paused

record GCodeBuffer =
  gcodeBuffer :: "char list"
  gcodePointer :: nat
  readPointer :: int
  inComment :: bool
  state :: GCodeState
  writingFileDirectory :: "string option"
  identity :: string
  hostMessages :: "string list"

definition Message :: "string \<Rightarrow> GCodeBuffer \<Rightarrow> GCodeBuffer" where
  "Message s gb = gb\<lparr>hostMessages := hostMessages gb @ [s]\<rparr>"

definition GCodeBuffer_Init :: "GCodeBuffer \<Rightarrow> GCodeBuffer" where
  "GCodeBuffer_Init gb = gb\<lparr>gcodePointer := 0, readPointer := - 1, inComment := False, state := idle\<rparr>"

definition SetFinished :: "bool \<Rightarrow> GCodeBuffer \<Rightarrow> GCodeBuffer" where
  "SetFinished f gb = gb\<lparr>state := (if f then idle else executing)\<rparr>"

definition Active :: "GCodeBuffer \<Rightarrow> bool" where
  "Active gb = (state gb = executing)"

definition Buffer :: "GCodeBuffer \<Rightarrow> string" where
  "Buffer gb = cstr_at (gcodeBuffer gb) 0"

definition CheckSum :: "GCodeBuffer \<Rightarrow> int" where
  "CheckSum gb =
     uint ((foldl (\<lambda>cs b. cs XOR of_char b) (0 :: 32 word)
              (takeWhile (\<lambda>b. b \<noteq> CHR ''*'' \<and> b \<noteq> NUL) (gcodeBuffer gb))) AND 0xff)"

fun Seen_scan :: "char \<Rightarrow> char list \<Rightarrow> nat \<Rightarrow> int" where
  "Seen_scan c [] rp = - 1"
| "Seen_scan c (b # bs) rp =
     (if b = NUL \<or> b = CHR '';'' then - 1
      else if b = c then int rp
      else Seen_scan c bs (Suc rp))"

definition Seen :: "char \<Rightarrow> GCodeBuffer \<Rightarrow> bool \<times> GCodeBuffer" where
  "Seen c gb = (let rp = Seen_scan c (gcodeBuffer gb) 0 in (0 \<le> rp, gb\<lparr>readPointer := rp\<rparr>))"

definition GetLValue :: "GCodeBuffer \<Rightarrow> int \<times> GCodeBuffer" where
  "GetLValue gb =
     (if readPointer gb < 0
      then (0, (Message ''GCodes: Attempt to read a GCode int before a search.\<newline>'' gb)\<lparr>readPointer := - 1\<rparr>)
      else (strtol (cstr_at (gcodeBuffer gb) (nat (readPointer gb + 1))), gb\<lparr>readPointer := - 1\<rparr>))"

definition GetIValue :: "GCodeBuffer \<Rightarrow> int \<times> GCodeBuffer" where
  "GetIValue gb = GetLValue gb"

text \<open>The two loops of \<open>Put\<close> that strip the line number and the checksum.\<close>

function skip_to_space :: "char list \<Rightarrow> nat \<Rightarrow> nat" where
  "skip_to_space buf gp =
     (if byte_at buf gp \<noteq> CHR '' '' \<and> byte_at buf gp \<noteq> NUL then skip_to_space buf (Suc gp) else gp)"
  by pat_completeness auto
termination
  by (relation "measure (\<lambda>(buf, gp). length buf - gp)") (auto simp: byte_at_def NUL_def split: if_splits)

function strip_copy :: "char list \<Rightarrow> nat \<Rightarrow> nat \<Rightarrow> fault + (char list \<times> nat \<times> nat)" where
  "strip_copy buf gp gp2 =
     (if byte_at buf gp \<noteq> CHR ''*'' \<and> byte_at buf gp \<noteq> NUL
      then (case store buf gp2 (byte_at buf gp) of
              Inl e \<Rightarrow> Inl e
            | Inr buf' \<Rightarrow> strip_copy buf' (Suc gp) (Suc gp2))
      else Inr (buf, gp, gp2))"
  by pat_completeness auto
termination
  by (relation "measure (\<lambda>(buf, gp, gp2). length buf - gp)")
     (auto simp: byte_at_def store_def NUL_def split: if_splits)

declare skip_to_space.simps [simp del] strip_copy.simps [simp del]

text \<open>
  The block of \<open>Put\<close> for \<open>'\n'\<close> and NUL, entered after the byte is stored. It gives
  \<open>(returned, result, gb)\<close>: \<open>returned\<close> tells that the block left \<open>Put\<close> by one of
  its two \<open>return\<close> statements, so that the overflow test at the end is not reached.
  The parameter \<open>len\<close> stands for \<open>GCODE_LENGTH\<close>, \<open>debug\<close> for \<open>reprap.Debug()\<close>.
\<close>

definition Put_line :: "nat \<Rightarrow> bool \<Rightarrow> GCodeBuffer \<Rightarrow> fault + (bool \<times> bool \<times> GCodeBuffer)" where
  "Put_line len debug gb0 =
     (case store (gcodeBuffer gb0) (gcodePointer gb0) NUL of
        Inl e \<Rightarrow> Inl e
      | Inr buf1 \<Rightarrow>
         let gb1 = GCodeBuffer_Init (gb0\<lparr>gcodeBuffer := buf1\<rparr>);
             gb2 = (if debug \<and> byte_at buf1 0 \<noteq> NUL \<and> writingFileDirectory gb1 = None
                    then Message ''\<newline>'' (Message (cstr_at buf1 0) (Message (identity gb1) gb1))
                    else gb1);
             (seenStar, gb3) = Seen (CHR ''*'') gb2
         in if seenStar then
              let (csSent, gb4) = GetIValue gb3;
                  csHere = CheckSum gb4;
                  (seenN, gb5) = Seen (CHR ''N'') gb4
              in if csSent \<noteq> csHere then
                   let (n, gb6) = GetIValue gb5
                   in (case snprintf (gcodeBuffer gb6) len (''M998 P'' @ show_int n) of
                         Inl e \<Rightarrow> Inl e
                       | Inr buf2 \<Rightarrow> Inr (True, True, GCodeBuffer_Init (gb6\<lparr>gcodeBuffer := buf2\<rparr>)))
                 else
                   let gp = skip_to_space (gcodeBuffer gb5) (gcodePointer gb5)
                   in if byte_at (gcodeBuffer gb5) gp = NUL then
                        (case store (gcodeBuffer gb5) 0 NUL of
                           Inl e \<Rightarrow> Inl e
                         | Inr buf2 \<Rightarrow> Inr (True, True, GCodeBuffer_Init (gb5\<lparr>gcodeBuffer := buf2, gcodePointer := gp\<rparr>)))
                      else
                        (case strip_copy (gcodeBuffer gb5) (Suc gp) 0 of
                           Inl e \<Rightarrow> Inl e
                         | Inr (buf2, gp', gp2) \<Rightarrow>
                            (case store buf2 gp2 NUL of
                               Inl e \<Rightarrow> Inl e
                             | Inr buf3 \<Rightarrow> Inr (False, True, GCodeBuffer_Init (gb5\<lparr>gcodeBuffer := buf3, gcodePointer := gp'\<rparr>))))
            else Inr (False, True, gb3))"

definition Put :: "nat \<Rightarrow> bool \<Rightarrow> GCodeBuffer \<Rightarrow> char \<Rightarrow> fault + (bool \<times> GCodeBuffer)" where
  "Put len debug gb c =
     (case store (gcodeBuffer gb) (gcodePointer gb) c of
        Inl e \<Rightarrow> Inl e
      | Inr buf1 \<Rightarrow>
         let gb1 = gb\<lparr>gcodeBuffer := buf1\<rparr>;
             gb2 = (if c = CHR '';'' then gb1\<lparr>inComment := True\<rparr> else gb1)
         in (case (if c = NL \<or> c = NUL then Put_line len debug gb2
                   else if \<not> inComment gb2 \<or> writingFileDirectory gb2 \<noteq> None
                        then Inr (False, False, gb2\<lparr>gcodePointer := gcodePointer gb2 + 1\<rparr>)
                        else Inr (False, False, gb2)) of
               Inl e \<Rightarrow> Inl e
             | Inr (returned, result, gb3) \<Rightarrow>
                if returned then Inr (result, gb3)
                else if gcodePointer gb3 \<ge> len then
                  (let gb4 = (Message ''G Code buffer length overflow.\<newline>'' gb3)\<lparr>gcodePointer := 0\<rparr>
                   in case store (gcodeBuffer gb4) 0 NUL of
                        Inl e \<Rightarrow> Inl e
                      | Inr buf2 \<Rightarrow> Inr (result, gb4\<lparr>gcodeBuffer := buf2\<rparr>))
                else Inr (result, gb3)))"

text \<open>Feeding bytes one at a time; the results of the calls are collected.\<close>

fun Put_all :: "nat \<Rightarrow> bool \<Rightarrow> GCodeBuffer \<Rightarrow> char list \<Rightarrow> fault + (bool list \<times> GCodeBuffer)" where
  "Put_all len debug gb [] = Inr ([], gb)"
| "Put_all len debug gb (c # cs) =
     (case Put len debug gb c of
        Inl e \<Rightarrow> Inl e
      | Inr (r, gb') \<Rightarrow>
         (case Put_all len debug gb' cs of
            Inl e \<Rightarrow> Inl e
          | Inr (rs, gb'') \<Rightarrow> Inr (r # rs, gb'')))"

section \<open>Well-formed buffers\<close>

text \<open>The array has \<open>GCODE_LENGTH\<close> bytes and the write index is inside it.\<close>

definition wf_buffer :: "nat \<Rightarrow> GCodeBuffer \<Rightarrow> bool" where
  "wf_buffer L gb = (length (gcodeBuffer gb) = L \<and> gcodePointer gb < L)"


text \<open>What \<open>snprintf\<close> leaves in an array that is long enough.\<close>

definition snprintf_result :: "char list \<Rightarrow> nat \<Rightarrow> string \<Rightarrow> char list" where
  "snprintf_result buf n s = take (n - 1) s @ NUL # drop (Suc (min (length s) (n - 1))) buf"

section \<open>Floating point\<close>

text \<open>
  \<open>float\<close> is IEEE 754 binary32 and \<open>double\<close> is binary64, both rounding to nearest,
  ties to even, as on the ARM target of the firmware. A datum of either format is a sign
  with a magnitude \<open>m * 2 ^ e\<close> (\<open>m\<close> odd, or zero with \<open>e = 0\<close>; the two zeros are
  distinct), an infinity with its sign, or a NaN; the payload and the sign of a NaN are not
  kept. All arithmetic is on integers, so that every operation can be evaluated.
\<close>

datatype fp = Finite bool int int | Infinite bool | NaN

type_synonym float = fp
type_synonym double = fp

text \<open>The number of binary digits of \<open>n\<close>.\<close>

function bitlen :: "int \<Rightarrow> int" where
  "bitlen n = (if n \<le> 0 then 0 else 1 + bitlen (n div 2))"
  by pat_completeness auto
termination
  by (relation "measure nat") auto

declare bitlen.simps [simp del]

function odd_part :: "int \<Rightarrow> int \<Rightarrow> int \<times> int" where
  "odd_part m e = (if m \<le> 0 then (0, 0) else if even m then odd_part (m div 2) (e + 1) else (m, e))"
  by pat_completeness auto
termination
  by (relation "measure (\<lambda>(m, e). nat m)") auto

declare odd_part.simps [simp del]

text \<open>
  The positive rational \<open>num / den\<close> rounded to \<open>prec\<close> binary digits, the last of them
  of weight \<open>2 ^ lsb_min\<close> at least: the result is \<open>q * 2 ^ l\<close>. \<open>e\<close> is the exponent of
  the leading digit of \<open>num / den\<close>.
\<close>

definition round_nearest_even :: "int \<Rightarrow> int \<Rightarrow> int \<Rightarrow> int \<Rightarrow> int \<times> int" where
  "round_nearest_even prec lsb_min num den =
     (let k = bitlen num - bitlen den;
          e = (if den * 2 ^ nat k \<le> num * 2 ^ nat (- k) then k else k - 1);
          l = max (e - (prec - 1)) lsb_min;
          n0 = num * 2 ^ nat (- l);
          d0 = den * 2 ^ nat l;
          q = n0 div d0;
          r = n0 mod d0
      in (if d0 < 2 * r \<or> (2 * r = d0 \<and> odd q) then q + 1 else q, l))"

text \<open>
  Rounding to a format: \<open>emax\<close> is the exponent at which the format overflows to an
  infinity; a result too small for the format is a zero of the same sign.
\<close>

definition fp_round :: "int \<Rightarrow> int \<Rightarrow> int \<Rightarrow> bool \<Rightarrow> int \<Rightarrow> int \<Rightarrow> fp" where
  "fp_round prec lsb_min emax neg num den =
     (if num \<le> 0 then Finite neg 0 0
      else let (q, l) = round_nearest_even prec lsb_min num den
           in if emax < bitlen q + l then Infinite neg
              else let (m, e) = odd_part q l in Finite neg m e)"

definition round_float :: "bool \<Rightarrow> int \<Rightarrow> int \<Rightarrow> float" where
  "round_float neg num den = fp_round 24 (- 149) 128 neg num den"

definition round_double :: "bool \<Rightarrow> int \<Rightarrow> int \<Rightarrow> double" where
  "round_double neg num den = fp_round 53 (- 1074) 1024 neg num den"

text \<open>The magnitude \<open>m * 2 ^ e\<close> as a fraction.\<close>

definition frac_of :: "int \<Rightarrow> int \<Rightarrow> int \<times> int" where
  "frac_of m e = (m * 2 ^ nat e, 2 ^ nat (- e))"

text \<open>The conversion \<open>(float) d\<close>.\<close>

fun to_float :: "double \<Rightarrow> float" where
  "to_float (Finite s m e) = (let (n, d) = frac_of m e in round_float s n d)"
| "to_float (Infinite s) = Infinite s"
| "to_float NaN = NaN"

text \<open>
  The operations \<open>*\<close>, \<open>+\<close>, \<open>-\<close>, \<open><\<close> and \<open>>\<close> of \<open>float\<close>: \<open>fmul\<close>, \<open>fadd\<close>,
  \<open>fsub\<close>, \<open>fless\<close> and \<open>fgreater\<close>.
\<close>

fun fmul :: "float \<Rightarrow> float \<Rightarrow> float" where
  "fmul (Finite s m e) (Finite t n f) = (let (a, b) = frac_of (m * n) (e + f) in round_float (s \<noteq> t) a b)"
| "fmul (Finite s m e) (Infinite t) = (if m = 0 then NaN else Infinite (s \<noteq> t))"
| "fmul (Infinite s) (Finite t n f) = (if n = 0 then NaN else Infinite (s \<noteq> t))"
| "fmul (Infinite s) (Infinite t) = Infinite (s \<noteq> t)"
| "fmul NaN y = NaN"
| "fmul x NaN = NaN"

definition signed_int :: "bool \<Rightarrow> int \<Rightarrow> int" where
  "signed_int s m = (if s then - m else m)"

fun fadd :: "float \<Rightarrow> float \<Rightarrow> float" where
  "fadd (Finite s m e) (Finite t n f) =
     (let g = min e f;
          c = signed_int s (m * 2 ^ nat (e - g)) + signed_int t (n * 2 ^ nat (f - g))
      in if c = 0 then Finite (s \<and> t) 0 0
         else let (a, b) = frac_of \<bar>c\<bar> g in round_float (c < 0) a b)"
| "fadd (Finite s m e) (Infinite t) = Infinite t"
| "fadd (Infinite s) (Finite t n f) = Infinite s"
| "fadd (Infinite s) (Infinite t) = (if s = t then Infinite s else NaN)"
| "fadd NaN y = NaN"
| "fadd x NaN = NaN"

fun fneg :: "float \<Rightarrow> float" where
  "fneg (Finite s m e) = Finite (\<not> s) m e"
| "fneg (Infinite s) = Infinite (\<not> s)"
| "fneg NaN = NaN"

definition fsub :: "float \<Rightarrow> float \<Rightarrow> float" where
  "fsub x y = fadd x (fneg y)"

fun fless :: "float \<Rightarrow> float \<Rightarrow> bool" where
  "fless (Finite s m e) (Finite t n f) =
     (let g = min e f in signed_int s (m * 2 ^ nat (e - g)) < signed_int t (n * 2 ^ nat (f - g)))"
| "fless (Finite s m e) (Infinite t) = (\<not> t)"
| "fless (Infinite s) (Finite t n f) = s"
| "fless (Infinite s) (Infinite t) = (s \<and> \<not> t)"
| "fless NaN y = False"
| "fless x NaN = False"

definition fgreater :: "float \<Rightarrow> float \<Rightarrow> bool" where
  "fgreater x y = fless y x"

text \<open>
  \<open>strtod(s, 0)\<close> of the C library in the C locale: white space is skipped and a sign is
  read; then \<open>inf\<close> or \<open>nan\<close> in any case, or \<open>0x\<close> with hexadecimal digits, an optional
  point and an optional binary exponent after \<open>p\<close>, or decimal digits with an optional
  point and an optional exponent after \<open>e\<close> (an exponent counts only when digits follow
  it). The value is the nearest \<open>double\<close>; input with no digits gives 0.
\<close>

definition isdigit :: "char \<Rightarrow> bool" where
  "isdigit b = (digit_value b < 10)"

definition isxdigit :: "char \<Rightarrow> bool" where
  "isxdigit b = (digit_value b < 16)"

definition tolower :: "char \<Rightarrow> char" where
  "tolower b = (let n = (of_char b :: nat) in if 65 \<le> n \<and> n \<le> 90 then char_of (n + 32) else b)"

definition digits_value :: "int \<Rightarrow> string \<Rightarrow> int" where
  "digits_value base ds = foldl (\<lambda>a b. a * base + int (digit_value b)) 0 ds"

definition strtod_exponent :: "char \<Rightarrow> string \<Rightarrow> int" where
  "strtod_exponent c s =
     (if s \<noteq> [] \<and> tolower (hd s) = c then
        (let t = tl s;
             neg = (t \<noteq> [] \<and> hd t = CHR ''-'');
             u = (if t \<noteq> [] \<and> (hd t = CHR ''-'' \<or> hd t = CHR ''+'') then tl t else t);
             v = digits_value 10 (takeWhile isdigit u)
         in if neg then - v else v)
      else 0)"

definition strtod_number :: "int \<Rightarrow> int \<Rightarrow> char \<Rightarrow> (char \<Rightarrow> bool) \<Rightarrow> bool \<Rightarrow> string \<Rightarrow> double option" where
  "strtod_number base ebase c isdig neg s =
     (let ip = takeWhile isdig s;
          s1 = dropWhile isdig s;
          dot = (s1 \<noteq> [] \<and> hd s1 = CHR ''.'');
          fr = (if dot then takeWhile isdig (tl s1) else []);
          s2 = (if dot then dropWhile isdig (tl s1) else s1);
          n = digits_value base (ip @ fr);
          x = strtod_exponent c s2;
          num = n * ebase ^ nat x;
          den = base ^ length fr * ebase ^ nat (- x)
      in if ip = [] \<and> fr = [] then None else Some (round_double neg num den))"

definition strtod :: "string \<Rightarrow> double" where
  "strtod s =
     (let s1 = dropWhile isspace s;
          neg = (s1 \<noteq> [] \<and> hd s1 = CHR ''-'');
          s2 = (if s1 \<noteq> [] \<and> (hd s1 = CHR ''-'' \<or> hd s1 = CHR ''+'') then tl s1 else s1);
          hex = (if map tolower (take 2 s2) = ''0x''
                 then strtod_number 16 2 (CHR ''p'') isxdigit neg (drop 2 s2) else None)
      in if map tolower (take 3 s2) = ''inf'' then Infinite neg
         else if map tolower (take 3 s2) = ''nan'' then NaN
         else case hex of
                Some v \<Rightarrow> v
              | None \<Rightarrow> (case strtod_number 10 10 (CHR ''e'') isdigit neg s2 of
                           Some v \<Rightarrow> v
                         | None \<Rightarrow> Finite False 0 0))"

text \<open>The literals \<open>0.0\<close> and \<open>1.0\<close>, and the conversion of an integer to \<open>float\<close>.\<close>

abbreviation zero_f :: float where
  "zero_f \<equiv> Finite False 0 0"

abbreviation one_f :: float where
  "one_f \<equiv> Finite False 1 0"

definition float_of_int :: "int \<Rightarrow> float" where
  "float_of_int n = round_float (n < 0) \<bar>n\<bar> 1"

text \<open>The real number a finite datum stands for.\<close>

definition valof :: "fp \<Rightarrow> real" where
  "valof x = (case x of Finite s m e \<Rightarrow> (if s then - 1 else 1) * real_of_int m * 2 powi e | _ \<Rightarrow> 0)"


section \<open>Numeric fields of a command\<close>

text \<open>
  \<open>GetFValue\<close> and \<open>GetFloatArray\<close> convert the \<open>double\<close> that \<open>strtod\<close> returns to
  \<open>float\<close>.
\<close>

definition GetFValue :: "GCodeBuffer \<Rightarrow> float \<times> GCodeBuffer" where
  "GetFValue gb =
     (if readPointer gb < 0
      then (zero_f, (Message ''GCodes: Attempt to read a GCode float before a search.\<newline>'' gb)\<lparr>readPointer := - 1\<rparr>)
      else (to_float (strtod (cstr_at (gcodeBuffer gb) (nat (readPointer gb + 1)))), gb\<lparr>readPointer := - 1\<rparr>))"

text \<open>Modelled from the spec: \<open>LIST_SEPARATOR\<close>, the colon between the values of a list.\<close>

definition LIST_SEPARATOR :: char where
  "LIST_SEPARATOR = CHR '':''"

function skip_list_item :: "char list \<Rightarrow> nat \<Rightarrow> nat" where
  "skip_list_item buf rp =
     (if byte_at buf rp \<noteq> NUL \<and> byte_at buf rp \<noteq> CHR '' '' \<and> byte_at buf rp \<noteq> LIST_SEPARATOR
      then skip_list_item buf (Suc rp) else rp)"
  by pat_completeness auto
termination
  by (relation "measure (\<lambda>(buf, rp). length buf - rp)") (auto simp: byte_at_def NUL_def split: if_splits)

declare skip_list_item.simps [simp del]

text \<open>
  The loop of \<open>GetFloatArray\<close>: \<open>a\<close> holds the values read so far (its length is the
  local \<open>length\<close>), \<open>rp\<close> is \<open>readPointer\<close>. \<open>None\<close> is the exit through the
  "too long" error.
\<close>

function GetFloatArray_loop :: "char list \<Rightarrow> nat \<Rightarrow> float list \<Rightarrow> nat \<Rightarrow> float list option" where
  "GetFloatArray_loop buf returnedLength a rp =
     (if length a \<ge> returnedLength then None
      else let a' = a @ [to_float (strtod (cstr_at buf (rp + 1)))];
               rp' = skip_list_item buf (rp + 1)
           in if byte_at buf rp' \<noteq> LIST_SEPARATOR then Some a'
              else GetFloatArray_loop buf returnedLength a' rp')"
  by pat_completeness auto
termination
  by (relation "measure (\<lambda>(buf, returnedLength, a, rp). returnedLength - length a)") auto

declare GetFloatArray_loop.simps [simp del]

text \<open>
  \<open>GetFloatArray(a, returnedLength)\<close> gives the values stored in \<open>a\<close> and the new
  \<open>returnedLength\<close>. The texts of messages and replies are not cut to
  \<open>STRING_LENGTH\<close> in this model.
\<close>

definition GetFloatArray :: "nat \<Rightarrow> GCodeBuffer \<Rightarrow> (float list \<times> nat) \<times> GCodeBuffer" where
  "GetFloatArray returnedLength gb =
     (if readPointer gb < 0
      then (([], 0), (Message ''GCodes: Attempt to read a GCode float array before a search.\<newline>'' gb)\<lparr>readPointer := - 1\<rparr>)
      else (case GetFloatArray_loop (gcodeBuffer gb) returnedLength [] (nat (readPointer gb)) of
              None \<Rightarrow>
                (([], 0),
                 (Message (''GCodes: Attempt to read a GCode float array that is too long: '' @ Buffer gb @ ''\<newline>'') gb)
                   \<lparr>readPointer := - 1\<rparr>)
            | Some a \<Rightarrow>
                (if length a = 1 \<and> returnedLength > 1
                 then (replicate returnedLength (hd a), returnedLength)
                 else (a, length a),
                 gb\<lparr>readPointer := - 1\<rparr>)))"

definition GetString :: "GCodeBuffer \<Rightarrow> string \<times> GCodeBuffer" where
  "GetString gb =
     (if readPointer gb < 0
      then ('''', (Message ''GCodes: Attempt to read a GCode string before a search.\<newline>'' gb)\<lparr>readPointer := - 1\<rparr>)
      else (cstr_at (gcodeBuffer gb) (nat (readPointer gb + 1)), gb\<lparr>readPointer := - 1\<rparr>))"

text \<open>
  Modelled from the spec: the inline members \<open>Pause\<close>, \<open>WritingFileDirectory\<close> and
  \<open>SetWritingFileDirectory\<close> of the class declaration.
\<close>

definition Pause :: "GCodeBuffer \<Rightarrow> GCodeBuffer" where
  "Pause gb = (if state gb = executing then gb\<lparr>state := paused\<rparr> else gb)"

definition SetWritingFileDirectory :: "string option \<Rightarrow> GCodeBuffer \<Rightarrow> GCodeBuffer" where
  "SetWritingFileDirectory d gb = gb\<lparr>writingFileDirectory := d\<rparr>"

section \<open>The interpreter state and its collaborators\<close>

text \<open>
  Modelled from the spec: the constants \<open>AXES\<close>, \<open>X_AXIS\<close>, \<open>Y_AXIS\<close>,
  \<open>Z_AXIS\<close>, \<open>GCODE_LETTERS\<close>, \<open>EXTRUDE_LETTER\<close>, \<open>FEEDRATE_LETTER\<close>,
  \<open>INCH_TO_MM\<close>, the names of the homing macros and \<open>EOF_STRING\<close>, whose header
  is not among the sources: three axes X, Y and Z, the tags \<open>E\<close> and \<open>F\<close>, the
  \<open>double\<close> literal 25.4 (mm to the inch), \<open>homex.g\<close>, \<open>homey.g\<close>, \<open>homez.g\<close>, \<open>homeall.g\<close>.
\<close>

definition AXES :: nat where
  "AXES = 3"

definition X_AXIS :: nat where
  "X_AXIS = 0"

definition Y_AXIS :: nat where
  "Y_AXIS = 1"

definition Z_AXIS :: nat where
  "Z_AXIS = 2"

definition GCODE_LETTERS :: string where
  "GCODE_LETTERS = ''XYZ''"

definition EXTRUDE_LETTER :: char where
  "EXTRUDE_LETTER = CHR ''E''"

definition FEEDRATE_LETTER :: char where
  "FEEDRATE_LETTER = CHR ''F''"

definition INCH_TO_MM :: double where
  "INCH_TO_MM = round_double False 254 10"

definition HOME_X_G :: string where
  "HOME_X_G = ''homex.g''"

definition HOME_Y_G :: string where
  "HOME_Y_G = ''homey.g''"

definition HOME_Z_G :: string where
  "HOME_Z_G = ''homez.g''"

definition HOME_ALL_G :: string where
  "HOME_ALL_G = ''homeall.g''"

definition EOF_STRING :: string where
  "EOF_STRING = ''<!-- **EoF** -->''"

datatype MessageType = HOST_MESSAGE | WEB_MESSAGE | WEB_ERROR_MESSAGE | BOTH_MESSAGE | BOTH_ERROR_MESSAGE

datatype Compatibility = me | reprapFirmware | marlin | teacup | sprinter | repetier

text \<open>What the interpreter sends out: messages of the platform and text on the serial line.\<close>

datatype out_event = PlatformMessage MessageType string | LineWrite string

text \<open>The calls of the planner that change it.\<close>

datatype move_call = ResumeMoving | SetLiveCoordinates "float list" | SetPositions_call "float list" | SetFeedrate float

text \<open>
  The collaborators during one call of the interpreter, and the constants \<open>STACK\<close>,
  \<open>DRIVES\<close> and \<open>GCODE_LENGTH\<close> of the missing headers, as parameters.
  \<open>GetCurrentUserPosition\<close> is \<open>None\<close> when the planner's function returns false
  (the array is then left as it is), and the \<open>DRIVES + 1\<close> values it stores otherwise.
  \<open>GetCurrentTool\<close> is the list of the drives of the selected tool, \<open>None\<close> for the
  null pointer. \<open>GetFileStore dir name\<close> is the content of the file opened for reading,
  \<open>None\<close> when there is no such file. \<open>format_s_of_int\<close> stands for what
  \<open>snprintf\<close> writes when the format \<open>%s\<close> is given an \<open>int\<close>, which C leaves
  undefined.
\<close>

record Env =
  STACK :: nat
  DRIVES :: nat
  GCODE_LENGTH :: nat
  Debug :: bool
  AllMovesAreFinished :: bool
  GetCurrentUserPosition :: "float list option"
  Transform :: "float list \<Rightarrow> float list"
  InstantDv_SlowestDrive :: float
  GetCurrentTool :: "nat list option"
  AxisMinimum :: "nat \<Rightarrow> float"
  AxisMaximum :: "nat \<Rightarrow> float"
  MustHomeXYBeforeZ :: bool
  Emulating :: Compatibility
  GetSysDir :: string
  GetWebDir :: string
  GetFileStore :: "string \<Rightarrow> string \<Rightarrow> string option"
  format_s_of_int :: "int \<Rightarrow> string"

text \<open>
  Modelled from the spec: \<open>FileStore\<close> and \<open>FileData\<close>, a seekable stream of bytes
  and a handle on one. Open files live in the list \<open>files\<close> of the state; a live
  \<open>FileData\<close> is the index of its file there, so that copies of a handle share the read
  position.
\<close>

record FileStore =
  contents :: string
  position :: nat

type_synonym FileData = "nat option"

datatype Source = Web | Serial | File | Macro

record GCodes =
  active :: bool
  webGCode :: GCodeBuffer
  fileGCode :: GCodeBuffer
  serialGCode :: GCodeBuffer
  cannedCycleGCode :: GCodeBuffer
  moveAvailable :: bool
  moveBuffer :: "float list"
  checkEndStops :: bool
  drivesRelative :: bool
  axesRelative :: bool
  drivesRelativeStack :: "bool list"
  axesRelativeStack :: "bool list"
  feedrateStack :: "float list"
  fileStack :: "FileData list"
  stackPointer :: nat
  lastPos :: "float list"
  distanceScale :: float
  fileBeingPrinted :: FileData
  fileToPrint :: FileData
  fileBeingWritten :: "string option"
  doingCannedCycleFile :: bool
  eofStringCounter :: nat
  homeX :: bool
  homeY :: bool
  homeZ :: bool
  limitAxes :: bool
  axisIsHomed :: "bool list"
  waitingForMoveToComplete :: bool
  speedFactor :: float
  speedFactorChange :: float
  extrusionFactors :: "float list"
  files :: "FileStore list"
  closedFiles :: "string list"
  webserver_gcode :: string
  line_bytes :: string
  outputs :: "out_event list"
  move_calls :: "move_call list"
  messageIndent :: nat

text \<open>The buffer a \<open>GCodeBuffer*\<close> points to.\<close>

fun gbuf :: "Source \<Rightarrow> GCodes \<Rightarrow> GCodeBuffer" where
  "gbuf Web st = webGCode st"
| "gbuf Serial st = serialGCode st"
| "gbuf File st = fileGCode st"
| "gbuf Macro st = cannedCycleGCode st"

fun set_gbuf :: "Source \<Rightarrow> GCodeBuffer \<Rightarrow> GCodes \<Rightarrow> GCodes" where
  "set_gbuf Web gb st = st\<lparr>webGCode := gb\<rparr>"
| "set_gbuf Serial gb st = st\<lparr>serialGCode := gb\<rparr>"
| "set_gbuf File gb st = st\<lparr>fileGCode := gb\<rparr>"
| "set_gbuf Macro gb st = st\<lparr>cannedCycleGCode := gb\<rparr>"

text \<open>The members of a buffer, called through the pointer.\<close>

definition gb_Seen :: "Source \<Rightarrow> char \<Rightarrow> GCodes \<Rightarrow> bool \<times> GCodes" where
  "gb_Seen gb c st = (let (r, b) = Seen c (gbuf gb st) in (r, set_gbuf gb b st))"

definition gb_GetIValue :: "Source \<Rightarrow> GCodes \<Rightarrow> int \<times> GCodes" where
  "gb_GetIValue gb st = (let (r, b) = GetIValue (gbuf gb st) in (r, set_gbuf gb b st))"

definition gb_GetFValue :: "Source \<Rightarrow> GCodes \<Rightarrow> float \<times> GCodes" where
  "gb_GetFValue gb st = (let (r, b) = GetFValue (gbuf gb st) in (r, set_gbuf gb b st))"

definition gb_GetFloatArray :: "Source \<Rightarrow> nat \<Rightarrow> GCodes \<Rightarrow> (float list \<times> nat) \<times> GCodes" where
  "gb_GetFloatArray gb returnedLength st =
     (let (r, b) = GetFloatArray returnedLength (gbuf gb st) in (r, set_gbuf gb b st))"

definition gb_GetString :: "Source \<Rightarrow> GCodes \<Rightarrow> string \<times> GCodes" where
  "gb_GetString gb st = (let (r, b) = GetString (gbuf gb st) in (r, set_gbuf gb b st))"

definition gb_SetFinished :: "Source \<Rightarrow> bool \<Rightarrow> GCodes \<Rightarrow> GCodes" where
  "gb_SetFinished gb f st = set_gbuf gb (SetFinished f (gbuf gb st)) st"

definition gb_Init :: "Source \<Rightarrow> GCodes \<Rightarrow> GCodes" where
  "gb_Init gb st = set_gbuf gb (GCodeBuffer_Init (gbuf gb st)) st"

definition gb_Put :: "Env \<Rightarrow> Source \<Rightarrow> char \<Rightarrow> GCodes \<Rightarrow> fault + (bool \<times> GCodes)" where
  "gb_Put env gb c st =
     (case Put (GCODE_LENGTH env) (Debug env) (gbuf gb st) c of
        Inl e \<Rightarrow> Inl e
      | Inr (r, b) \<Rightarrow> Inr (r, set_gbuf gb b st))"

definition platform_Message :: "MessageType \<Rightarrow> string \<Rightarrow> GCodes \<Rightarrow> GCodes" where
  "platform_Message t s st = st\<lparr>outputs := outputs st @ [PlatformMessage t s]\<rparr>"

definition line_Write :: "string \<Rightarrow> GCodes \<Rightarrow> GCodes" where
  "line_Write s st = st\<lparr>outputs := outputs st @ [LineWrite s]\<rparr>"

text \<open>Modelled from the spec: the members of \<open>FileData\<close>.\<close>

definition IsLive :: "FileData \<Rightarrow> bool" where
  "IsLive f = (f \<noteq> None)"

text \<open>\<open>fileBeingPrinted.Read(b)\<close>: the byte at the read position, which then advances.\<close>

definition fileBeingPrinted_Read :: "GCodes \<Rightarrow> char option \<times> GCodes" where
  "fileBeingPrinted_Read st =
     (case fileBeingPrinted st of
        None \<Rightarrow> (None, st)
      | Some h \<Rightarrow>
         (let f = files st ! h
          in if h < length (files st) \<and> position f < length (contents f)
             then (Some (contents f ! position f), st\<lparr>files := (files st)[h := f\<lparr>position := position f + 1\<rparr>]\<rparr>)
             else (None, st)))"

text \<open>\<open>fileBeingPrinted.Set(f)\<close> for a file just opened with the content \<open>c\<close>.\<close>

definition fileBeingPrinted_Set :: "string \<Rightarrow> GCodes \<Rightarrow> GCodes" where
  "fileBeingPrinted_Set c st =
     st\<lparr>files := files st @ [\<lparr>contents = c, position = 0\<rparr>], fileBeingPrinted := Some (length (files st))\<rparr>"

section \<open>Moves, the stack and the move slot\<close>

definition AllMovesAreFinishedAndMoveBufferIsLoaded :: "Env \<Rightarrow> GCodes \<Rightarrow> bool \<times> GCodes" where
  "AllMovesAreFinishedAndMoveBufferIsLoaded env st =
     (if moveAvailable st then (False, st)
      else if \<not> AllMovesAreFinished env then (False, st)
      else let st1 = st\<lparr>move_calls := move_calls st @ [ResumeMoving]\<rparr>
           in (case GetCurrentUserPosition env of
                 None \<Rightarrow> (False, st1)
               | Some m \<Rightarrow> (True, st1\<lparr>moveBuffer := m\<rparr>)))"

text \<open>
  Modelled from the spec: \<open>PushMessageIndent\<close> and \<open>PopMessageIndent\<close> of the platform
  count the indent of messages up and down.
\<close>

definition Push :: "Env \<Rightarrow> GCodes \<Rightarrow> bool \<times> GCodes" where
  "Push env st =
     (if stackPointer st \<ge> STACK env
      then (True, platform_Message BOTH_ERROR_MESSAGE ''Push(): stack overflow!\<newline>'' st)
      else let (ok, st1) = AllMovesAreFinishedAndMoveBufferIsLoaded env st
           in if \<not> ok then (False, st1)
              else (True,
                    st1\<lparr>drivesRelativeStack := (drivesRelativeStack st1)[stackPointer st1 := drivesRelative st1],
                        axesRelativeStack := (axesRelativeStack st1)[stackPointer st1 := axesRelative st1],
                        feedrateStack := (feedrateStack st1)[stackPointer st1 := moveBuffer st1 ! DRIVES env],
                        fileStack := (fileStack st1)[stackPointer st1 := fileBeingPrinted st1],
                        stackPointer := stackPointer st1 + 1,
                        messageIndent := messageIndent st1 + 1\<rparr>))"

definition Pop :: "Env \<Rightarrow> GCodes \<Rightarrow> bool \<times> GCodes" where
  "Pop env st =
     (if stackPointer st \<le> 0
      then (True, platform_Message BOTH_ERROR_MESSAGE ''Pop(): stack underflow!\<newline>'' st)
      else let (ok, st1) = AllMovesAreFinishedAndMoveBufferIsLoaded env st
           in if \<not> ok then (False, st1)
              else let sp = stackPointer st1 - 1;
                       st2 = st1\<lparr>stackPointer := sp,
                                 drivesRelative := drivesRelativeStack st1 ! sp,
                                 axesRelative := axesRelativeStack st1 ! sp,
                                 fileBeingPrinted := fileStack st1 ! sp,
                                 fileStack := (fileStack st1)[sp := None],
                                 messageIndent := messageIndent st1 - 1\<rparr>;
                       st3 = st2\<lparr>lastPos := foldl (\<lambda>lp i. lp[i - AXES := moveBuffer st2 ! i]) (lastPos st2)
                                                  [AXES..<DRIVES env]\<rparr>
                   in (True,
                       st3\<lparr>moveBuffer := (moveBuffer st3)[DRIVES env := feedrateStack st3 ! sp],
                           checkEndStops := False,
                           moveAvailable := True\<rparr>))"

text \<open>
  The body of the loop over the extruder values of \<open>LoadMoveBufferFromGCode\<close>;
  \<open>tool\<close> lists the drives of the selected tool.
\<close>

definition extruder_step :: "bool \<Rightarrow> nat list \<Rightarrow> float list \<Rightarrow> GCodes \<Rightarrow> nat \<Rightarrow> GCodes" where
  "extruder_step doingG92 tool eMovement st eDrive =
     (let drive = tool ! eDrive;
          moveArg = fmul (eMovement ! eDrive) (distanceScale st)
      in if doingG92 then
           st\<lparr>moveBuffer := (moveBuffer st)[drive + AXES := zero_f],
              lastPos := (lastPos st)[drive := moveArg]\<rparr>
         else if drivesRelative st then
           st\<lparr>moveBuffer := (moveBuffer st)[drive + AXES := fmul moveArg (extrusionFactors st ! drive)],
              lastPos := (lastPos st)[drive := fadd (lastPos st ! drive) moveArg]\<rparr>
         else
           st\<lparr>moveBuffer := (moveBuffer st)[drive + AXES := fmul (fsub moveArg (lastPos st ! drive)) (extrusionFactors st ! drive)],
              lastPos := (lastPos st)[drive := moveArg]\<rparr>)"

text \<open>The body of the loop over the axes.\<close>

definition axis_step :: "Env \<Rightarrow> Source \<Rightarrow> bool \<Rightarrow> bool \<Rightarrow> GCodes \<Rightarrow> nat \<Rightarrow> GCodes" where
  "axis_step env gb doingG92 applyLimits st axis =
     (let (seen, st1) = gb_Seen gb (GCODE_LETTERS ! axis) st
      in if seen then
           let (v, st2) = gb_GetFValue gb st1;
               moveArg = fmul v (distanceScale st2);
               moveArg1 = (if axesRelative st2 \<and> \<not> doingG92 then fadd moveArg (moveBuffer st2 ! axis) else moveArg);
               moveArg2 = (if applyLimits \<and> axis < 2 \<and> axisIsHomed st2 ! axis \<and> \<not> doingG92
                           then (if fless moveArg1 (AxisMinimum env axis) then AxisMinimum env axis
                                 else if fgreater moveArg1 (AxisMaximum env axis) then AxisMaximum env axis
                                 else moveArg1)
                           else moveArg1);
               st3 = st2\<lparr>moveBuffer := (moveBuffer st2)[axis := moveArg2]\<rparr>
           in if doingG92 then st3\<lparr>axisIsHomed := (axisIsHomed st3)[axis := True]\<rparr> else st3
         else st1)"

text \<open>
  The part of \<open>LoadMoveBufferFromGCode\<close> that deals with extrusion; its first
  component is false when the function returns false there.
\<close>

definition load_extruders :: "Env \<Rightarrow> Source \<Rightarrow> bool \<Rightarrow> GCodes \<Rightarrow> bool \<times> GCodes" where
  "load_extruders env gb doingG92 st =
     (let tool = GetCurrentTool env;
          (seenE, st1) = gb_Seen gb EXTRUDE_LETTER st
      in if seenE then
           (case tool of
              None \<Rightarrow> (False, platform_Message BOTH_ERROR_MESSAGE ''Attempting to extrude with no tool selected.\<newline>'' st1)
            | Some drives \<Rightarrow>
               let ((eMovement, eMoveCount), st2) = gb_GetFloatArray gb (length drives) st1
               in if length drives \<noteq> eMoveCount then
                    (False, platform_Message HOST_MESSAGE
                       (''Wrong number of extruder drives for the selected tool: '' @ Buffer (gbuf gb st2) @ ''\<newline>'') st2)
                  else
                    let st3 = st2\<lparr>moveBuffer := foldl (\<lambda>m drive. m[drive := zero_f]) (moveBuffer st2) [AXES..<DRIVES env]\<rparr>
                    in (True, foldl (extruder_step doingG92 drives eMovement) st3 [0..<eMoveCount]))
         else (True, st1))"

definition LoadMoveBufferFromGCode :: "Env \<Rightarrow> Source \<Rightarrow> bool \<Rightarrow> bool \<Rightarrow> GCodes \<Rightarrow> bool \<times> GCodes" where
  "LoadMoveBufferFromGCode env gb doingG92 applyLimits st =
     (let (ok, st1) = load_extruders env gb doingG92 st
      in if \<not> ok then (False, st1)
         else let st2 = foldl (axis_step env gb doingG92 applyLimits) st1 [0..<AXES];
                  (seenF, st3) = gb_Seen gb FEEDRATE_LETTER st2
              in if seenF then
                   let (f, st4) = gb_GetFValue gb st3
                   in (True, st4\<lparr>moveBuffer := (moveBuffer st4)[DRIVES env := fmul (fmul f (distanceScale st4)) (speedFactor st4)]\<rparr>)
                 else (True, st3))"

definition SetUpMove :: "Env \<Rightarrow> Source \<Rightarrow> GCodes \<Rightarrow> int \<times> GCodes" where
  "SetUpMove env gb st =
     (if moveAvailable st then (0, st)
      else (case GetCurrentUserPosition env of
              None \<Rightarrow> (0, st)
            | Some m \<Rightarrow>
               let st1 = st\<lparr>moveBuffer := m\<rparr>;
                   st2 = st1\<lparr>moveBuffer := (moveBuffer st1)[DRIVES env := fmul (moveBuffer st1 ! DRIVES env) (speedFactorChange st1)],
                             speedFactorChange := one_f\<rparr>;
                   st3 = st2\<lparr>checkEndStops := False\<rparr>;
                   (seenS, st4) = gb_Seen gb (CHR ''S'') st3;
                   st6 = (if seenS then
                            let (v, st5) = gb_GetIValue gb st4
                            in if v = 1 then st5\<lparr>checkEndStops := True\<rparr> else st5
                          else st4);
                   (loaded, st7) = LoadMoveBufferFromGCode env gb False (\<not> checkEndStops st6 \<and> limitAxes st6) st6;
                   st8 = st7\<lparr>moveAvailable := loaded\<rparr>
               in (if checkEndStops st8 then 2 else 1, st8)))"

text \<open>
  \<open>ReadMove(m, ce)\<close>: the caller's array and flag are parameters, and their values after
  the call are returned with the result.
\<close>

definition ReadMove :: "Env \<Rightarrow> float list \<Rightarrow> bool \<Rightarrow> GCodes \<Rightarrow> (bool \<times> float list \<times> bool) \<times> GCodes" where
  "ReadMove env m ce st =
     (if \<not> moveAvailable st then ((False, m, ce), st)
      else ((True, foldl (\<lambda>a i. a[i := moveBuffer st ! i]) m [0..<DRIVES env + 1], checkEndStops st),
            st\<lparr>moveAvailable := False, checkEndStops := False\<rparr>))"

definition SetPositions :: "Env \<Rightarrow> Source \<Rightarrow> GCodes \<Rightarrow> bool \<times> GCodes" where
  "SetPositions env gb st =
     (let (ok, st1) = AllMovesAreFinishedAndMoveBufferIsLoaded env st
      in if \<not> ok then (False, st1)
         else let (loaded, st2) = LoadMoveBufferFromGCode env gb True False st1
              in if loaded then
                   let st3 = st2\<lparr>moveBuffer := Transform env (moveBuffer st2)\<rparr>
                   in (True,
                       st3\<lparr>move_calls := move_calls st3 @
                             [SetLiveCoordinates (moveBuffer st3), SetPositions_call (moveBuffer st3),
                              SetFeedrate (InstantDv_SlowestDrive env)]\<rparr>)
                 else (True, st2))"

section \<open>Macro files, homing and the command handlers\<close>

text \<open>
  \<open>ActOnCode\<close>, the handlers, \<open>DoHome\<close>, \<open>DoFileCannedCycles\<close> and
  \<open>DoFilePrint\<close> call one another. The functions below take the \<open>ActOnCode\<close> they
  call as the parameter \<open>act\<close>; \<open>ActOnCode\<close> itself counts the depth of these calls
  down from a bound and gives the fault \<open>OutOfFuel\<close> when the bound is used up, which
  stands for a recursion that does not return.
\<close>

type_synonym act_fn = "Source \<Rightarrow> GCodes \<Rightarrow> fault + (bool \<times> GCodes)"

text \<open>The statement \<open>if (gb->Put(b)) gb->SetFinished(ActOnCode(gb));\<close>\<close>

definition Put_and_act :: "Env \<Rightarrow> act_fn \<Rightarrow> Source \<Rightarrow> char \<Rightarrow> GCodes \<Rightarrow> fault + GCodes" where
  "Put_and_act env act gb b st =
     (case gb_Put env gb b st of
        Inl e \<Rightarrow> Inl e
      | Inr (armed, st1) \<Rightarrow>
         if armed then
           (case act gb st1 of
              Inl e \<Rightarrow> Inl e
            | Inr (f, st2) \<Rightarrow> Inr (gb_SetFinished gb f st2))
         else Inr st1)"

definition DoFilePrint :: "Env \<Rightarrow> act_fn \<Rightarrow> Source \<Rightarrow> GCodes \<Rightarrow> fault + GCodes" where
  "DoFilePrint env act gb st =
     (if IsLive (fileBeingPrinted st) then
        (case fileBeingPrinted_Read st of
           (Some b, st1) \<Rightarrow> Put_and_act env act gb b st1
         | (None, st1) \<Rightarrow>
            (case Put_and_act env act gb NL st1 of
               Inl e \<Rightarrow> Inl e
             | Inr st2 \<Rightarrow> Inr (st2\<lparr>fileBeingPrinted := None\<rparr>)))
      else Inr st)"

definition DoFileCannedCycles :: "Env \<Rightarrow> act_fn \<Rightarrow> string \<Rightarrow> GCodes \<Rightarrow> fault + (bool \<times> GCodes)" where
  "DoFileCannedCycles env act fileName st =
     (if \<not> doingCannedCycleFile st then
        (let (pushed, st1) = Push env st
         in if \<not> pushed then Inr (False, st1)
            else (case GetFileStore env (GetSysDir env) fileName of
                    None \<Rightarrow>
                     (let st2 = platform_Message HOST_MESSAGE '' not found.\<newline>''
                                  (platform_Message HOST_MESSAGE fileName
                                    (platform_Message HOST_MESSAGE ''Macro file '' st1));
                          (popped, st3) = Pop env st2
                      in if \<not> popped
                         then Inr (True, platform_Message HOST_MESSAGE ''Cannot pop the stack.\<newline>'' st3)
                         else Inr (True, st3))
                  | Some f \<Rightarrow>
                     Inr (False, gb_Init Macro ((fileBeingPrinted_Set f st1)\<lparr>doingCannedCycleFile := True\<rparr>))))
      else if \<not> IsLive (fileBeingPrinted st) then
        (let (popped, st1) = Pop env st
         in if \<not> popped then Inr (False, st1)
            else Inr (True, gb_Init Macro (st1\<lparr>doingCannedCycleFile := False\<rparr>)))
      else if Active (cannedCycleGCode st) then
        (case act Macro st of
           Inl e \<Rightarrow> Inl e
         | Inr (f, st1) \<Rightarrow> Inr (False, gb_SetFinished Macro f st1))
      else
        (case DoFilePrint env act Macro st of
           Inl e \<Rightarrow> Inl e
         | Inr st1 \<Rightarrow> Inr (False, st1)))"

definition FileCannedCyclesReturn :: "Env \<Rightarrow> GCodes \<Rightarrow> bool \<times> GCodes" where
  "FileCannedCyclesReturn env st =
     (if \<not> doingCannedCycleFile st then (True, st)
      else let (ok, st1) = AllMovesAreFinishedAndMoveBufferIsLoaded env st
           in if \<not> ok then (False, st1)
              else (True, (gb_Init Macro (st1\<lparr>doingCannedCycleFile := False\<rparr>))\<lparr>fileBeingPrinted := None\<rparr>))"

text \<open>
  \<open>NoHome\<close> is an inline member of the missing class declaration; \<open>G28\<close> uses it to
  tell whether any axis is still to be homed.
\<close>

definition NoHome :: "GCodes \<Rightarrow> bool" where
  "NoHome st = (\<not> (homeX st \<or> homeY st \<or> homeZ st))"

text \<open>
  \<open>DoHome(reply, error)\<close> gives its result, the reply and the error flag after the call,
  and the state.
\<close>

definition DoHome :: "Env \<Rightarrow> act_fn \<Rightarrow> string \<Rightarrow> bool \<Rightarrow> GCodes \<Rightarrow> fault + (bool \<times> string \<times> bool \<times> GCodes)" where
  "DoHome env act reply error st =
     (if homeX st \<and> homeY st \<and> homeZ st then
        (case DoFileCannedCycles env act HOME_ALL_G st of
           Inl e \<Rightarrow> Inl e
         | Inr (finished, st1) \<Rightarrow>
            if finished then Inr (True, reply, error, st1\<lparr>homeX := False, homeY := False, homeZ := False\<rparr>)
            else Inr (False, reply, error, st1))
      else if homeX st then
        (case DoFileCannedCycles env act HOME_X_G st of
           Inl e \<Rightarrow> Inl e
         | Inr (finished, st1) \<Rightarrow>
            if finished then (let st2 = st1\<lparr>homeX := False\<rparr> in Inr (NoHome st2, reply, error, st2))
            else Inr (False, reply, error, st1))
      else if homeY st then
        (case DoFileCannedCycles env act HOME_Y_G st of
           Inl e \<Rightarrow> Inl e
         | Inr (finished, st1) \<Rightarrow>
            if finished then (let st2 = st1\<lparr>homeY := False\<rparr> in Inr (NoHome st2, reply, error, st2))
            else Inr (False, reply, error, st1))
      else if homeZ st then
        (if MustHomeXYBeforeZ env \<and> (\<not> axisIsHomed st ! X_AXIS \<or> \<not> axisIsHomed st ! Y_AXIS) then
           Inr (True, ''Must home X and Y before homing Z'', True, st\<lparr>homeZ := False\<rparr>)
         else
           (case DoFileCannedCycles env act HOME_Z_G st of
              Inl e \<Rightarrow> Inl e
            | Inr (finished, st1) \<Rightarrow>
               if finished then (let st2 = st1\<lparr>homeZ := False\<rparr> in Inr (NoHome st2, reply, error, st2))
               else Inr (False, reply, error, st1)))
      else Inr (True, reply, error, st\<lparr>checkEndStops := False, moveAvailable := False\<rparr>))"

definition HandleReply :: "Env \<Rightarrow> bool \<Rightarrow> bool \<Rightarrow> string \<Rightarrow> char \<Rightarrow> int \<Rightarrow> bool \<Rightarrow> GCodes \<Rightarrow> GCodes" where
  "HandleReply env error fromLine reply gMOrT code resend st =
     (let st1 = (if gMOrT \<noteq> CHR ''M'' \<or> (code \<noteq> 111 \<and> code \<noteq> 122)
                 then platform_Message (if error then WEB_ERROR_MESSAGE else WEB_MESSAGE) reply st
                 else st);
          c = (if \<not> fromLine then me else Emulating env);
          response = (if resend then ''rs '' else ''ok'');
          unsupported = (\<lambda>s. platform_Message HOST_MESSAGE (''Emulation of '' @ s @ '' is not yet supported.\<newline>'') st1)
      in case c of
           me \<Rightarrow>
             if reply = [] then st1
             else line_Write ''\<newline>'' (line_Write reply (if error then line_Write ''Error: '' st1 else st1))
         | reprapFirmware \<Rightarrow>
             if reply = [] then st1
             else line_Write ''\<newline>'' (line_Write reply (if error then line_Write ''Error: '' st1 else st1))
         | marlin \<Rightarrow>
             if gMOrT = CHR ''M'' \<and> code = 20 then
               line_Write ''\<newline>'' (line_Write response (line_Write ''\<newline>End file list\<newline>''
                 (line_Write reply (line_Write ''Begin file list\<newline>'' st1))))
             else if gMOrT = CHR ''M'' \<and> code = 28 then
               line_Write ''\<newline>'' (line_Write reply (line_Write ''\<newline>'' (line_Write response st1)))
             else if (gMOrT = CHR ''M'' \<and> code = 105) \<or> (gMOrT = CHR ''G'' \<and> code = 998) then
               line_Write ''\<newline>'' (line_Write reply (line_Write '' '' (line_Write response st1)))
             else
               line_Write ''\<newline>'' (line_Write response
                 (if reply \<noteq> [] then line_Write ''\<newline>'' (line_Write reply st1) else st1))
         | teacup \<Rightarrow> unsupported ''teacup''
         | sprinter \<Rightarrow> unsupported ''sprinter''
         | repetier \<Rightarrow> unsupported ''repetier'')"

text \<open>
  \<open>HandleGcode\<close>. The cases G4, G10, G30, G31 and G32 are outside the model and give
  the fault \<open>Unmodelled\<close>. The inner value is \<open>(result, error, reply, state)\<close> at the
  end of the \<open>switch\<close>.
\<close>

definition HandleGcode :: "Env \<Rightarrow> act_fn \<Rightarrow> Source \<Rightarrow> GCodes \<Rightarrow> fault + (bool \<times> GCodes)" where
  "HandleGcode env act gb st0 =
     (let (code, st) = gb_GetIValue gb st0
      in case (if code = 0 \<or> code = 1 then
                 (if waitingForMoveToComplete st then
                    (let (result, st1) = AllMovesAreFinishedAndMoveBufferIsLoaded env st
                     in if result then Inr (True, False, [], st1\<lparr>waitingForMoveToComplete := False\<rparr>)
                        else Inr (False, False, [], st1))
                  else
                    (let (res, st1) = SetUpMove env gb st;
                         st2 = (if res = 2 then st1\<lparr>waitingForMoveToComplete := True\<rparr> else st1)
                     in Inr (res = 1, False, [], st2)))
               else if code = 4 \<or> code = 10 \<or> code = 30 \<or> code = 31 \<or> code = 32 then Inl Unmodelled
               else if code = 20 then Inr (True, False, [], st\<lparr>distanceScale := to_float INCH_TO_MM\<rparr>)
               else if code = 21 then Inr (True, False, [], st\<lparr>distanceScale := one_f\<rparr>)
               else if code = 28 then
                 (let st3 =
                        (if NoHome st then
                           (let (x, st1) = gb_Seen gb (GCODE_LETTERS ! X_AXIS) st;
                                (y, st2) = gb_Seen gb (GCODE_LETTERS ! Y_AXIS) (st1\<lparr>homeX := x\<rparr>);
                                (z, st3) = gb_Seen gb (GCODE_LETTERS ! Z_AXIS) (st2\<lparr>homeY := y\<rparr>);
                                st4 = st3\<lparr>homeZ := z\<rparr>
                            in if NoHome st4 then st4\<lparr>homeX := True, homeY := True, homeZ := True\<rparr> else st4)
                         else st)
                  in case DoHome env act [] False st3 of
                       Inl e \<Rightarrow> Inl e
                     | Inr (result, reply, error, st4) \<Rightarrow> Inr (result, error, reply, st4))
               else if code = 90 then Inr (True, False, [], st\<lparr>drivesRelative := False, axesRelative := False\<rparr>)
               else if code = 91 then Inr (True, False, [], st\<lparr>drivesRelative := True, axesRelative := True\<rparr>)
               else if code = 92 then
                 (let (result, st1) = SetPositions env gb st in Inr (result, False, [], st1))
               else Inr (True, True, ''invalid G Code: '' @ Buffer (gbuf gb st), st)) of
           Inl e \<Rightarrow> Inl e
         | Inr (result, error, reply, st1) \<Rightarrow>
            if result then Inr (True, HandleReply env error (gb = Serial) reply (CHR ''G'') code False st1)
            else Inr (False, st1))"

text \<open>
  \<open>HandleMcode\<close>. Modelled are M21, M24, M25, M82, M83, M85, M98, M99, M120, M121,
  M135, M998 and the \<open>default\<close> case; the other cases of the \<open>switch\<close> give the fault
  \<open>Unmodelled\<close>. The inner value is \<open>(result, error, resend, reply, state)\<close>.
\<close>

definition Mcodes_with_case :: "int list" where
  "Mcodes_with_case =
     [0, 1, 18, 20, 21, 23, 24, 25, 27, 28, 29, 30, 80, 81, 82, 83, 84, 85, 92, 98, 99, 104, 105, 106,
      107, 109, 110, 111, 112, 114, 115, 116, 119, 120, 121, 122, 126, 127, 135, 140, 141, 190, 201, 203,
      205, 206, 208, 210, 220, 221, 301, 302, 304, 305, 503, 540, 550, 551, 552, 553, 554, 555, 556,
      557, 558, 559, 560, 561, 562, 563, 564, 566, 906, 998, 999]"

definition HandleMcode :: "Env \<Rightarrow> act_fn \<Rightarrow> Source \<Rightarrow> GCodes \<Rightarrow> fault + (bool \<times> GCodes)" where
  "HandleMcode env act gb st0 =
     (let (code, st) = gb_GetIValue gb st0
      in case (if code = 21 \<or> code = 85 \<or> code = 135 then Inr (True, False, False, [], st)
               else if code = 24 then
                 (if IsLive (fileBeingPrinted st) then Inr (True, False, False, [], st)
                  else Inr (True, False, False, [], st\<lparr>fileBeingPrinted := fileToPrint st, fileToPrint := None\<rparr>))
               else if code = 25 then
                 Inr (True, False, False, [], st\<lparr>fileToPrint := fileBeingPrinted st, fileBeingPrinted := None\<rparr>)
               else if code = 82 then
                 Inr (True, False, False, [],
                      st\<lparr>lastPos := foldl (\<lambda>lp extruder. lp[extruder - AXES := zero_f]) (lastPos st) [AXES..<DRIVES env],
                         drivesRelative := False\<rparr>)
               else if code = 83 then
                 Inr (True, False, False, [],
                      st\<lparr>lastPos := foldl (\<lambda>lp extruder. lp[extruder - AXES := zero_f]) (lastPos st) [AXES..<DRIVES env],
                         drivesRelative := True\<rparr>)
               else if code = 98 then
                 (let (p, st1) = gb_Seen gb (CHR ''P'') st
                  in if p then
                       (let (name, st2) = gb_GetString gb st1
                        in case DoFileCannedCycles env act name st2 of
                             Inl e \<Rightarrow> Inl e
                           | Inr (result, st3) \<Rightarrow> Inr (result, False, False, [], st3))
                     else Inr (True, False, False, [], st1))
               else if code = 99 then
                 (let (result, st1) = FileCannedCyclesReturn env st in Inr (result, False, False, [], st1))
               else if code = 120 then
                 (let (result, st1) = Push env st in Inr (result, False, False, [], st1))
               else if code = 121 then
                 (let (result, st1) = Pop env st in Inr (result, False, False, [], st1))
               else if code = 998 then
                 (let (p, st1) = gb_Seen gb (CHR ''P'') st
                  in if p then
                       (let (v, st2) = gb_GetIValue gb st1 in Inr (True, False, True, format_s_of_int env v, st2))
                     else Inr (True, False, False, [], st1))
               else if code \<in> set Mcodes_with_case then Inl Unmodelled
               else Inr (True, True, False, ''invalid M Code: '' @ Buffer (gbuf gb st), st)) of
           Inl e \<Rightarrow> Inl e
         | Inr (result, error, resend, reply, st1) \<Rightarrow>
            if result then Inr (True, HandleReply env error (gb = Serial) reply (CHR ''M'') code resend st1)
            else Inr (False, st1))"

text \<open>\<open>HandleTcode\<close> changes the tool; it is outside the model.\<close>

definition HandleTcode :: "Env \<Rightarrow> act_fn \<Rightarrow> Source \<Rightarrow> GCodes \<Rightarrow> fault + (bool \<times> GCodes)" where
  "HandleTcode env act gb st = Inl Unmodelled"

definition ActOnCode_body :: "Env \<Rightarrow> act_fn \<Rightarrow> Source \<Rightarrow> GCodes \<Rightarrow> fault + (bool \<times> GCodes)" where
  "ActOnCode_body env act gb st =
     (let (m, st1) = gb_Seen gb (CHR ''M'') st
      in if m then HandleMcode env act gb st1
         else let (g, st2) = gb_Seen gb (CHR ''G'') st1
              in if g then HandleGcode env act gb st2
                 else let (t, st3) = gb_Seen gb (CHR ''T'') st2
                      in if t then HandleTcode env act gb st3
                         else Inr (True, HandleReply env False (gb = Serial) [] (CHR ''X'') 0 False st3))"

primrec ActOnCode :: "nat \<Rightarrow> Env \<Rightarrow> Source \<Rightarrow> GCodes \<Rightarrow> fault + (bool \<times> GCodes)" where
  "ActOnCode 0 env gb st = Inl OutOfFuel"
| "ActOnCode (Suc n) env gb st = ActOnCode_body env (ActOnCode n env) gb st"

section \<open>Capturing a file, and the dispatcher\<close>

text \<open>
  The file being written is the text written to it so far; closing it moves the text
  to \<open>closedFiles\<close>.
\<close>

definition fileBeingWritten_Write :: "string \<Rightarrow> GCodes \<Rightarrow> GCodes" where
  "fileBeingWritten_Write s st = st\<lparr>fileBeingWritten := map_option (\<lambda>t. t @ s) (fileBeingWritten st)\<rparr>"

definition fileBeingWritten_Close :: "GCodes \<Rightarrow> GCodes" where
  "fileBeingWritten_Close st =
     (case fileBeingWritten st of
        None \<Rightarrow> st
      | Some t \<Rightarrow> st\<lparr>closedFiles := closedFiles st @ [t], fileBeingWritten := None\<rparr>)"

definition gb_SetWritingFileDirectory :: "Source \<Rightarrow> string option \<Rightarrow> GCodes \<Rightarrow> GCodes" where
  "gb_SetWritingFileDirectory gb d st = set_gbuf gb (SetWritingFileDirectory d (gbuf gb st)) st"

definition WriteHTMLToFile :: "Env \<Rightarrow> char \<Rightarrow> Source \<Rightarrow> GCodes \<Rightarrow> GCodes" where
  "WriteHTMLToFile env b gb st =
     (if fileBeingWritten st = None
      then platform_Message HOST_MESSAGE ''Attempt to write to a null file.\<newline>'' st
      else let st1 = (if eofStringCounter st \<noteq> 0 \<and> b \<noteq> byte_at EOF_STRING (eofStringCounter st)
                      then (fileBeingWritten_Write (take (eofStringCounter st) EOF_STRING) st)\<lparr>eofStringCounter := 0\<rparr>
                      else st)
           in if b = byte_at EOF_STRING (eofStringCounter st1) then
                (let st2 = st1\<lparr>eofStringCounter := eofStringCounter st1 + 1\<rparr>
                 in if eofStringCounter st2 \<ge> length EOF_STRING then
                      HandleReply env False (gb = Serial)
                        (if Emulating env = marlin then ''Done saving file.'' else [])
                        (CHR ''M'') 560 False
                        (gb_SetWritingFileDirectory gb None (fileBeingWritten_Close st2))
                    else st2)
              else fileBeingWritten_Write [b] st1)"

definition WriteGCodeToFile :: "Env \<Rightarrow> Source \<Rightarrow> GCodes \<Rightarrow> GCodes" where
  "WriteGCodeToFile env gb st =
     (if fileBeingWritten st = None
      then platform_Message HOST_MESSAGE ''Attempt to write to a null file.\<newline>'' st
      else let (m, st1) = gb_Seen gb (CHR ''M'') st;
               (is29, st2) = (if m then (let (v, s) = gb_GetIValue gb st1 in (v = 29, s)) else (False, st1))
           in if is29 then
                HandleReply env False (gb = Serial)
                  (if Emulating env = marlin then ''Done saving file.'' else [])
                  (CHR ''M'') 29 False
                  (gb_SetWritingFileDirectory gb None (fileBeingWritten_Close st2))
              else
                let (g, st3) = gb_Seen gb (CHR ''G'') st2;
                    (is998, st4) = (if g then (let (v, s) = gb_GetIValue gb st3 in (v = 998, s)) else (False, st3));
                    (p, st5) = (if is998 then gb_Seen gb (CHR ''P'') st4 else (False, st4))
                in if is998 \<and> p then
                     (let (v, st6) = gb_GetIValue gb st5
                      in HandleReply env False (gb = Serial) (format_s_of_int env v) (CHR ''G'') 998 True st6)
                   else
                     HandleReply env False (gb = Serial) [] (CHR ''G'') 1 False
                       (fileBeingWritten_Write ''\<newline>'' (fileBeingWritten_Write (Buffer (gbuf gb st5)) st5)))"

text \<open>
  The two loops of \<open>Spin\<close> that take up to 16 bytes from the web server and from the
  serial line; \<open>i\<close> is the counter of the loop. \<open>webserver_gcode\<close> and \<open>line_bytes\<close>
  are the bytes that wait in the two transports, and the loops are entered only when a
  byte waits.
\<close>

function Spin_web_loop :: "Env \<Rightarrow> act_fn \<Rightarrow> nat \<Rightarrow> GCodes \<Rightarrow> fault + GCodes" where
  "Spin_web_loop env act i st =
     (case webserver_gcode st of
        [] \<Rightarrow> Inr st
      | b # rest \<Rightarrow>
         (case gb_Put env Web b (st\<lparr>webserver_gcode := rest\<rparr>) of
            Inl e \<Rightarrow> Inl e
          | Inr (armed, st2) \<Rightarrow>
             if armed then
               (if writingFileDirectory (webGCode st2) \<noteq> None then Inr (WriteGCodeToFile env Web st2)
                else (case act Web st2 of
                        Inl e \<Rightarrow> Inl e
                      | Inr (f, st3) \<Rightarrow> Inr (gb_SetFinished Web f st3)))
             else if i + 1 < 16 \<and> webserver_gcode st2 \<noteq> [] then Spin_web_loop env act (i + 1) st2
             else Inr st2))"
  by pat_completeness auto
termination
  by (relation "measure (\<lambda>(env, act, i, st). 16 - i)") auto

function Spin_serial_loop :: "Env \<Rightarrow> act_fn \<Rightarrow> nat \<Rightarrow> GCodes \<Rightarrow> fault + GCodes" where
  "Spin_serial_loop env act i st =
     (case line_bytes st of
        [] \<Rightarrow> Inr st
      | b # rest \<Rightarrow>
         (case gb_Put env Serial b (st\<lparr>line_bytes := rest\<rparr>) of
            Inl e \<Rightarrow> Inl e
          | Inr (armed, st2) \<Rightarrow>
             if armed then
               (if writingFileDirectory (serialGCode st2) \<noteq> None then Inr (WriteGCodeToFile env Serial st2)
                else (case act Serial st2 of
                        Inl e \<Rightarrow> Inl e
                      | Inr (f, st3) \<Rightarrow> Inr (gb_SetFinished Serial f st3)))
             else if i + 1 < 16 \<and> line_bytes st2 \<noteq> [] then Spin_serial_loop env act (i + 1) st2
             else Inr st2))"
  by pat_completeness auto
termination
  by (relation "measure (\<lambda>(env, act, i, st). 16 - i)") auto

declare Spin_web_loop.simps [simp del] Spin_serial_loop.simps [simp del]

text \<open>
  \<open>Spin\<close>; \<open>fuel\<close> bounds the depth of the calls of \<open>ActOnCode\<close>. The report of
  the time spent (\<open>ClassReport\<close>) is left out.
\<close>

definition Spin :: "nat \<Rightarrow> Env \<Rightarrow> GCodes \<Rightarrow> fault + GCodes" where
  "Spin fuel env st =
     (let act = ActOnCode fuel env
      in if \<not> active st then Inr st
         else if Active (webGCode st) then
           (case act Web st of Inl e \<Rightarrow> Inl e | Inr (f, st1) \<Rightarrow> Inr (gb_SetFinished Web f st1))
         else if Active (serialGCode st) then
           (case act Serial st of Inl e \<Rightarrow> Inl e | Inr (f, st1) \<Rightarrow> Inr (gb_SetFinished Serial f st1))
         else if Active (fileGCode st) then
           (case act File st of Inl e \<Rightarrow> Inl e | Inr (f, st1) \<Rightarrow> Inr (gb_SetFinished File f st1))
         else if webserver_gcode st \<noteq> [] then Spin_web_loop env act 0 st
         else if writingFileDirectory (serialGCode st) = Some (GetWebDir env) then
           (case line_bytes st of
              [] \<Rightarrow> DoFilePrint env act File st
            | b # rest \<Rightarrow> DoFilePrint env act File (WriteHTMLToFile env b Serial (st\<lparr>line_bytes := rest\<rparr>)))
         else if line_bytes st \<noteq> [] then Spin_serial_loop env act 0 st
         else DoFilePrint env act File st)"

definition PauseSDPrint :: "GCodes \<Rightarrow> GCodes" where
  "PauseSDPrint st =
     (if IsLive (fileBeingPrinted st)
      then st\<lparr>fileToPrint := fileBeingPrinted st, fileBeingPrinted := None, fileGCode := Pause (fileGCode st)\<rparr>
      else st)"

section \<open>Construction and initialisation\<close>

text \<open>
  The state after the constructors. Arrays that C leaves without a value until they
  are first written hold zeros here.
\<close>

definition new_GCodeBuffer :: "Env \<Rightarrow> string \<Rightarrow> GCodeBuffer" where
  "new_GCodeBuffer env ident =
     \<lparr>gcodeBuffer = replicate (GCODE_LENGTH env) NUL, gcodePointer = 0, readPointer = - 1, inComment = False,
      state = idle, writingFileDirectory = None, identity = ident, hostMessages = []\<rparr>"

definition new_GCodes :: "Env \<Rightarrow> GCodes" where
  "new_GCodes env =
     \<lparr>active = False,
      webGCode = new_GCodeBuffer env ''web: '',
      fileGCode = new_GCodeBuffer env ''file: '',
      serialGCode = new_GCodeBuffer env ''serial: '',
      cannedCycleGCode = new_GCodeBuffer env ''macro: '',
      moveAvailable = False,
      moveBuffer = replicate (DRIVES env + 1) zero_f,
      checkEndStops = False,
      drivesRelative = False,
      axesRelative = False,
      drivesRelativeStack = replicate (STACK env) False,
      axesRelativeStack = replicate (STACK env) False,
      feedrateStack = replicate (STACK env) zero_f,
      fileStack = replicate (STACK env) None,
      stackPointer = 0,
      lastPos = replicate (DRIVES env - AXES) zero_f,
      distanceScale = zero_f,
      fileBeingPrinted = None,
      fileToPrint = None,
      fileBeingWritten = None,
      doingCannedCycleFile = False,
      eofStringCounter = 0,
      homeX = False,
      homeY = False,
      homeZ = False,
      limitAxes = False,
      axisIsHomed = replicate AXES False,
      waitingForMoveToComplete = False,
      speedFactor = zero_f,
      speedFactorChange = zero_f,
      extrusionFactors = replicate (DRIVES env - AXES) zero_f,
      files = [],
      closedFiles = [],
      webserver_gcode = [],
      line_bytes = [],
      outputs = [],
      move_calls = [],
      messageIndent = 0\<rparr>"

definition Reset :: "Env \<Rightarrow> GCodes \<Rightarrow> GCodes" where
  "Reset env st =
     (gb_Init Macro (gb_Init Serial (gb_Init File (gb_Init Web st))))
       \<lparr>moveAvailable := False,
        fileBeingPrinted := None,
        fileToPrint := None,
        fileBeingWritten := None,
        checkEndStops := False,
        doingCannedCycleFile := False,
        stackPointer := 0,
        waitingForMoveToComplete := False,
        speedFactor := to_float (round_double False 1 60),
        speedFactorChange := one_f,
        extrusionFactors := foldl (\<lambda>e i. e[i := one_f]) (extrusionFactors st) [0..<DRIVES env - AXES]\<rparr>"

definition Init :: "Env \<Rightarrow> GCodes \<Rightarrow> GCodes" where
  "Init env st =
     (Reset env st)
       \<lparr>drivesRelative := True,
        axesRelative := False,
        distanceScale := one_f,
        lastPos := foldl (\<lambda>lp i. lp[i := zero_f]) (lastPos st) [0..<DRIVES env - AXES],
        eofStringCounter := 0,
        homeX := False,
        homeY := False,
        homeZ := False,
        active := True,
        limitAxes := True,
        axisIsHomed := (((axisIsHomed st)[Z_AXIS := False])[Y_AXIS := False])[X_AXIS := False]\<rparr>"

section \<open>Notions used to state the properties\<close>

text \<open>The texts held by the four command buffers.\<close>

definition texts :: "GCodes \<Rightarrow> char list list" where
  "texts st = map (\<lambda>gb. gcodeBuffer (gbuf gb st)) [Web, Serial, File, Macro]"





text \<open>
  A field of a command line, as \<open>Seen\<close> and \<open>GetFValue\<close> read it: whether the tag is
  seen, and the number after its first occurrence.
\<close>

definition field_seen :: "char \<Rightarrow> char list \<Rightarrow> bool" where
  "field_seen c buf = (0 \<le> Seen_scan c buf 0)"

definition field_float :: "char \<Rightarrow> char list \<Rightarrow> float" where
  "field_float c buf = to_float (strtod (cstr_at buf (nat (Seen_scan c buf 0 + 1))))"

text \<open>
  The values \<open>GetFloatArray\<close> gives for the \<open>E\<close> field of a buffer when \<open>n\<close> values
  are asked for, and the count it returns.
\<close>

definition E_values :: "nat \<Rightarrow> GCodeBuffer \<Rightarrow> float list \<times> nat" where
  "E_values n gb = fst (GetFloatArray n (snd (Seen EXTRUDE_LETTER gb)))"

text \<open>A buffer text that \<open>ActOnCode\<close> dispatches to \<open>HandleMcode\<close> with the code \<open>c\<close>.\<close>

definition is_Mcode :: "int \<Rightarrow> char list \<Rightarrow> bool" where
  "is_Mcode c buf =
     (0 \<le> Seen_scan (CHR ''M'') buf 0 \<and> strtol (cstr_at buf (nat (Seen_scan (CHR ''M'') buf 0 + 1))) = c)"


text \<open>
  The values of a list field, from the words of the specification: the token after
  the tag runs to a space or to the end of the text, its items are separated by colons,
  and each item is read as a number. \<open>list_item_starts\<close> gives the index at which each
  item starts; \<open>p\<close> is the index of the tag.
\<close>

primrec colon_starts :: "nat \<Rightarrow> char list \<Rightarrow> nat list" where
  "colon_starts i [] = []"
| "colon_starts i (b # bs) = (if b = LIST_SEPARATOR then [Suc i] else []) @ colon_starts (Suc i) bs"

definition list_item_starts :: "char list \<Rightarrow> nat \<Rightarrow> nat list" where
  "list_item_starts buf p =
     Suc p # colon_starts (Suc p) (takeWhile (\<lambda>b. b \<noteq> NUL \<and> b \<noteq> CHR '' '') (drop (Suc p) buf))"

definition field_floats :: "char \<Rightarrow> char list \<Rightarrow> float list" where
  "field_floats c buf =
     map (\<lambda>i. to_float (strtod (cstr_at buf i))) (list_item_starts buf (nat (Seen_scan c buf 0)))"

text \<open>
  The values an \<open>E\<close> field supplies to a tool of \<open>n\<close> drives: one value is spread over
  all drives, otherwise there must be as many values as drives. A tool with no drive takes
  any field.
\<close>

definition E_supplied :: "nat \<Rightarrow> char list \<Rightarrow> float list option" where
  "E_supplied n buf =
     (let vs = field_floats EXTRUDE_LETTER buf
      in if n = 0 then Some []
         else if length vs = 1 then Some (replicate n (hd vs))
         else if length vs = n then Some vs
         else None)"

text \<open>The \<open>E\<close> field of a command, if it has one, can be served by the selected tool.\<close>

definition E_servable :: "Env \<Rightarrow> char list \<Rightarrow> bool" where
  "E_servable env buf =
     (\<not> field_seen EXTRUDE_LETTER buf \<or>
      (case GetCurrentTool env of None \<Rightarrow> False | Some drives \<Rightarrow> E_supplied (length drives) buf \<noteq> None))"








section \<open>Example inputs\<close>

definition gb4 :: GCodeBuffer where
  "gb4 = \<lparr>gcodeBuffer = ''####'', gcodePointer = 0, readPointer = - 1, inComment = False,
     state = idle, writingFileDirectory = None, identity = ''web: '', hostMessages = []\<rparr>"


definition env0 :: Env where
  "env0 =
     \<lparr>STACK = 5, DRIVES = 4, GCODE_LENGTH = 32, Debug = False, AllMovesAreFinished = True,
      GetCurrentUserPosition = Some (map float_of_int [10, 20, 30, 0, 50]), Transform = (\<lambda>m. m),
      InstantDv_SlowestDrive = float_of_int 1,
      GetCurrentTool = Some [0], AxisMinimum = (\<lambda>axis. float_of_int 0), AxisMaximum = (\<lambda>axis. float_of_int 200),
      MustHomeXYBeforeZ = True, Emulating = me, GetSysDir = ''0:/sys/'', GetWebDir = ''0:/www/'',
      GetFileStore = (\<lambda>dir name. None), format_s_of_int = (\<lambda>i. [])\<rparr>"

definition st0 :: GCodes where
  "st0 = Init env0 (new_GCodes env0)"

definition st_pending :: GCodes where
  "st_pending = st0\<lparr>moveBuffer := map float_of_int [1, 2, 3, 4, 5], moveAvailable := True, checkEndStops := True\<rparr>"


definition st_c3 :: GCodes where
  "st_c3 = st0\<lparr>moveBuffer := map float_of_int [10, 20, 30, 0, 50], lastPos := [float_of_int 5]\<rparr>"










section \<open>Values of the floating-point model\<close>

lemma float_of_int_values:
  "float_of_int 0 = zero_f" "float_of_int 1 = one_f" "float_of_int 2 = Finite False 1 1"
  "float_of_int 3 = Finite False 3 0" "float_of_int 4 = Finite False 1 2" "float_of_int 5 = Finite False 5 0"
  "float_of_int 9 = Finite False 9 0" "float_of_int 10 = Finite False 5 1" "float_of_int 20 = Finite False 5 2"
  "float_of_int 30 = Finite False 15 1" "float_of_int 50 = Finite False 25 1"
  "float_of_int 200 = Finite False 25 3"
  by code_simp+


section \<open>Properties of the command buffer\<close>

lemma strip_copy_ok:
  "gp2 < gp \<Longrightarrow> gp \<le> length buf \<Longrightarrow>
   \<exists>buf' gp' gp2'. strip_copy buf gp gp2 = Inr (buf', gp', gp2') \<and> length buf' = length buf
      \<and> gp2' < gp' \<and> gp' \<le> length buf"
proof (induction buf gp gp2 rule: strip_copy.induct)
  case (1 buf gp gp2)
  show ?case
  proof (cases "byte_at buf gp \<noteq> CHR ''*'' \<and> byte_at buf gp \<noteq> NUL")
    case True
    then have lt: "gp < length buf" by (auto simp: byte_at_def split: if_splits)
    with "1.prems" have st: "store buf gp2 (byte_at buf gp) = Inr (buf[gp2 := byte_at buf gp])"
      by (simp add: store_def)
    from "1.IH"[OF True st] "1.prems" lt
    obtain buf' gp' gp2' where
      "strip_copy (buf[gp2 := byte_at buf gp]) (Suc gp) (Suc gp2) = Inr (buf', gp', gp2')"
      "length buf' = length buf" "gp2' < gp'" "gp' \<le> length buf"
      by auto
    with True st show ?thesis
      by (subst strip_copy.simps) simp
  next
    case False
    with "1.prems" show ?thesis
      by (subst strip_copy.simps) auto
  qed
qed

lemma skip_to_space_le: "gp \<le> length buf \<Longrightarrow> skip_to_space buf gp \<le> length buf"
proof (induction buf gp rule: skip_to_space.induct)
  case (1 buf gp)
  show ?case
  proof (cases "byte_at buf gp \<noteq> CHR '' '' \<and> byte_at buf gp \<noteq> NUL")
    case True
    then have "gp < length buf" by (auto simp: byte_at_def split: if_splits)
    with "1.IH"[OF True] True show ?thesis
      by (subst skip_to_space.simps) simp
  next
    case False
    with "1.prems" show ?thesis by (subst skip_to_space.simps) auto
  qed
qed

lemma skip_to_space_stop:
  "byte_at buf (skip_to_space buf gp) = CHR '' '' \<or> byte_at buf (skip_to_space buf gp) = NUL"
proof (induction buf gp rule: skip_to_space.induct)
  case (1 buf gp)
  show ?case
  proof (cases "byte_at buf gp \<noteq> CHR '' '' \<and> byte_at buf gp \<noteq> NUL")
    case True
    with "1.IH"[OF True] show ?thesis by (subst (1 2) skip_to_space.simps) simp
  next
    case False
    then show ?thesis by (subst (1 2) skip_to_space.simps) auto
  qed
qed


lemma Message_frame [simp]:
  "gcodeBuffer (Message s g) = gcodeBuffer g" "gcodePointer (Message s g) = gcodePointer g"
  "readPointer (Message s g) = readPointer g" "inComment (Message s g) = inComment g"
  "state (Message s g) = state g" "writingFileDirectory (Message s g) = writingFileDirectory g"
  "identity (Message s g) = identity g"
  by (simp_all add: Message_def)

lemma Init_frame [simp]:
  "gcodeBuffer (GCodeBuffer_Init g) = gcodeBuffer g" "gcodePointer (GCodeBuffer_Init g) = 0"
  "readPointer (GCodeBuffer_Init g) = - 1" "inComment (GCodeBuffer_Init g) = False"
  "state (GCodeBuffer_Init g) = idle" "writingFileDirectory (GCodeBuffer_Init g) = writingFileDirectory g"
  "identity (GCodeBuffer_Init g) = identity g" "hostMessages (GCodeBuffer_Init g) = hostMessages g"
  by (simp_all add: GCodeBuffer_Init_def)

lemma Seen_frame [simp]:
  "gcodeBuffer (snd (Seen c g)) = gcodeBuffer g" "gcodePointer (snd (Seen c g)) = gcodePointer g"
  "inComment (snd (Seen c g)) = inComment g"
  "state (snd (Seen c g)) = state g" "writingFileDirectory (snd (Seen c g)) = writingFileDirectory g"
  "identity (snd (Seen c g)) = identity g" "hostMessages (snd (Seen c g)) = hostMessages g"
  by (simp_all add: Seen_def Let_def)

lemma GetIValue_frame [simp]:
  "gcodeBuffer (snd (GetIValue g)) = gcodeBuffer g" "gcodePointer (snd (GetIValue g)) = gcodePointer g"
  "readPointer (snd (GetIValue g)) = - 1" "inComment (snd (GetIValue g)) = inComment g"
  "state (snd (GetIValue g)) = state g" "writingFileDirectory (snd (GetIValue g)) = writingFileDirectory g"
  "identity (snd (GetIValue g)) = identity g"
  by (simp_all add: GetIValue_def GetLValue_def)

lemma snprintf_eq:
  "0 < n \<Longrightarrow> n \<le> length buf \<Longrightarrow> snprintf buf n s = Inr (snprintf_result buf n s)"
  by (auto simp: snprintf_def snprintf_result_def Let_def)

lemma snprintf_result_length:
  "0 < n \<Longrightarrow> n \<le> length buf \<Longrightarrow> length (snprintf_result buf n s) = length buf"
  by (auto simp: snprintf_result_def)

lemma Put_line_ok:
  assumes "wf_buffer L gb"
  shows "case Put_line L dbg gb of Inl e \<Rightarrow> False
         | Inr (ret, r, gb') \<Rightarrow> r \<and> wf_buffer L gb' \<and> gcodePointer gb' = 0"
proof -
  let ?buf1 = "(gcodeBuffer gb)[gcodePointer gb := NUL]"
  have len: "length ?buf1 = L" and L: "0 < L" and gp: "gcodePointer gb < length (gcodeBuffer gb)"
    using assms by (auto simp: wf_buffer_def)
  have st1: "store (gcodeBuffer gb) (gcodePointer gb) NUL = Inr ?buf1"
    using gp by (simp add: store_def)
  have st0: "\<And>b. length b = L \<Longrightarrow> store b 0 NUL = Inr (b[0 := NUL])"
    using L by (simp add: store_def)
  let ?sk = "skip_to_space ?buf1 0"
  have sk: "?sk \<le> L" using skip_to_space_le[of 0 ?buf1] len by simp
  show ?thesis
  proof (cases "byte_at ?buf1 ?sk = NUL")
    case True
    show ?thesis
      unfolding Put_line_def
      using True len L
      by (simp add: st1 st0 Let_def split_def wf_buffer_def snprintf_eq snprintf_result_length)
  next
    case False
    then have "?sk < L" using len by (auto simp: byte_at_def split: if_splits)
    then obtain buf' gp' gp2' where
      sc: "strip_copy ?buf1 (Suc ?sk) 0 = Inr (buf', gp', gp2')" "length buf' = L" "gp2' < L"
      using strip_copy_ok[of 0 "Suc ?sk" ?buf1] len by fastforce
    then have st2: "store buf' gp2' NUL = Inr (buf'[gp2' := NUL])"
      by (simp add: store_def)
    show ?thesis
      unfolding Put_line_def
      using False len L sc
      by (simp add: st1 st0 st2 Let_def split_def wf_buffer_def snprintf_eq snprintf_result_length)
  qed
qed

lemma Put_ok:
  assumes "wf_buffer L gb"
  shows "case Put L dbg gb c of Inl e \<Rightarrow> False | Inr (r, gb') \<Rightarrow> wf_buffer L gb'"
proof -
  let ?buf1 = "(gcodeBuffer gb)[gcodePointer gb := c]"
  have gp: "gcodePointer gb < length (gcodeBuffer gb)" and L: "0 < L" "length (gcodeBuffer gb) = L"
    using assms by (auto simp: wf_buffer_def)
  have st1: "store (gcodeBuffer gb) (gcodePointer gb) c = Inr ?buf1"
    using gp by (simp add: store_def)
  have st0: "\<And>b. length b = L \<Longrightarrow> store b 0 NUL = Inr (b[0 := NUL])"
    using L by (simp add: store_def)
  show ?thesis
  proof (cases "c = NL \<or> c = NUL")
    case True
    let ?g = "(if c = CHR '';'' then gb\<lparr>gcodeBuffer := ?buf1, inComment := True\<rparr> else gb\<lparr>gcodeBuffer := ?buf1\<rparr>)"
    have "wf_buffer L ?g" using assms by (simp add: wf_buffer_def)
    from Put_line_ok[OF this, of dbg] obtain ret gb' where
      "Put_line L dbg ?g = Inr (ret, True, gb')" "wf_buffer L gb'" "gcodePointer gb' = 0"
      by (auto split: sum.splits)
    then show ?thesis
      unfolding Put_def using True L
      by (simp add: st1 Let_def wf_buffer_def)
  next
    case False
    then show ?thesis
      unfolding Put_def using L
      by (simp add: st1 st0 Let_def wf_buffer_def Message_def)
  qed
qed

lemma Put_all_ok:
  "wf_buffer L gb \<Longrightarrow> \<exists>rs gb'. Put_all L dbg gb cs = Inr (rs, gb') \<and> wf_buffer L gb' \<and> length rs = length cs"
proof (induction cs arbitrary: gb)
  case Nil
  then show ?case by simp
next
  case (Cons c cs)
  from Put_ok[OF Cons.prems, of dbg c] obtain r g1 where
    p: "Put L dbg gb c = Inr (r, g1)" "wf_buffer L g1" by (auto split: sum.splits)
  from Cons.IH[OF p(2)] obtain rs g2 where
    "Put_all L dbg g1 cs = Inr (rs, g2)" "wf_buffer L g2" "length rs = length cs" by blast
  with p show ?case by simp
qed

lemma Put_overflow:
  assumes wf: "wf_buffer L gb"
    and c: "c \<noteq> NL" "c \<noteq> NUL"
    and adv: "\<not> (inComment gb \<or> c = CHR '';'') \<or> writingFileDirectory gb \<noteq> None"
    and full: "Suc (gcodePointer gb) = L"
  shows "\<exists>gb'. Put L dbg gb c = Inr (False, gb') \<and> gcodePointer gb' = 0
           \<and> gcodeBuffer gb' ! 0 = NUL
           \<and> hostMessages gb' = hostMessages gb @ [''G Code buffer length overflow.\<newline>'']"
proof -
  have gp: "gcodePointer gb < length (gcodeBuffer gb)" and L: "0 < L" "length (gcodeBuffer gb) = L"
    using wf by (auto simp: wf_buffer_def)
  have st1: "store (gcodeBuffer gb) (gcodePointer gb) c = Inr ((gcodeBuffer gb)[gcodePointer gb := c])"
    using gp by (simp add: store_def)
  have st0: "\<And>b. length b = L \<Longrightarrow> store b 0 NUL = Inr (b[0 := NUL])"
    using L by (simp add: store_def)
  show ?thesis
    unfolding Put_def using c adv full L
    by (auto simp: st1 st0 Let_def Message_def)
qed

text \<open>
  C2. From a well-formed buffer, feeding any bytes \<open>cs\<close> one at a time never faults: every
  store of \<open>Put\<close> is at an index below \<open>len\<close> (\<open>GCODE_LENGTH\<close>), the length of the array, and the
  buffer stays well-formed. For the next byte \<open>c\<close>: when it is an ordinary byte that is
  kept and fills the last free place, so that the write index reaches \<open>GCODE_LENGTH\<close>,
  \<open>Put\<close> sends the overflow message, sets the index to 0 and the first byte to NUL, and
  returns false.
\<close>

theorem Put_stays_within_capacity:
  assumes "wf_buffer len gb"
  shows "\<exists>rs gb1. Put_all len debug gb cs = Inr (rs, gb1) \<and> length rs = length cs
           \<and> wf_buffer len gb1
           \<and> (\<exists>r gb2. Put len debug gb1 c = Inr (r, gb2) \<and> wf_buffer len gb2
                \<and> (c \<noteq> NL \<and> c \<noteq> NUL
                     \<and> (\<not> (inComment gb1 \<or> c = CHR '';'') \<or> writingFileDirectory gb1 \<noteq> None)
                     \<and> Suc (gcodePointer gb1) = len
                    \<longrightarrow> \<not> r \<and> gcodePointer gb2 = 0 \<and> gcodeBuffer gb2 ! 0 = NUL
                        \<and> hostMessages gb2 = hostMessages gb1 @ [''G Code buffer length overflow.\<newline>'']))"
proof -
  from Put_all_ok[OF assms, of debug cs] obtain rs gb1 where
    a: "Put_all len debug gb cs = Inr (rs, gb1)" "wf_buffer len gb1" "length rs = length cs"
    by blast
  from Put_ok[OF a(2), of debug c] obtain r gb2 where
    p: "Put len debug gb1 c = Inr (r, gb2)" "wf_buffer len gb2"
    by (auto split: sum.splits)
  have "\<not> r \<and> gcodePointer gb2 = 0 \<and> gcodeBuffer gb2 ! 0 = NUL
         \<and> hostMessages gb2 = hostMessages gb1 @ [''G Code buffer length overflow.\<newline>'']"
    if "c \<noteq> NL" "c \<noteq> NUL" "\<not> (inComment gb1 \<or> c = CHR '';'') \<or> writingFileDirectory gb1 \<noteq> None"
       "Suc (gcodePointer gb1) = len"
    using Put_overflow[OF a(2) that, of debug] p by auto
  with a p show ?thesis by blast
qed


theorem Put_stays_within_capacity_witness:
  "wf_buffer 4 gb4 \<and>
   (\<exists>rs gb1. Put_all 4 False gb4 ''G1 '' = Inr (rs, gb1) \<and> Suc (gcodePointer gb1) = 4 \<and> \<not> inComment gb1
      \<and> (\<exists>gb2. Put 4 False gb1 (CHR ''X'') = Inr (False, gb2) \<and> gcodePointer gb2 = 0 \<and> gcodeBuffer gb2 ! 0 = NUL
            \<and> hostMessages gb2 = hostMessages gb1 @ [''G Code buffer length overflow.\<newline>'']))"
proof -
  have w: "wf_buffer 4 gb4" by (simp add: wf_buffer_def gb4_def)
  have e: "Put_all 4 False gb4 ''G1 '' = Inr ([False, False, False], gb4\<lparr>gcodeBuffer := ''G1 #'', gcodePointer := 3\<rparr>)"
    by (simp add: gb4_def Put_def store_def NL_def NUL_def)
  have f: "\<not> inComment gb4" by (simp add: gb4_def)
  show ?thesis
    unfolding e
    using w f Put_stays_within_capacity[OF w, of False "''G1 ''" "CHR ''X''", unfolded e]
    by (auto simp: NL_def NUL_def)
qed

section \<open>The move slot\<close>

lemma copy_loop_length: "length (foldl (\<lambda>a i. a[i := b ! i]) m [0..<n]) = length m"
  by (induction n) simp_all

lemma copy_loop_nth:
  "i < length m \<Longrightarrow> foldl (\<lambda>a i. a[i := b ! i]) m [0..<n] ! i = (if i < n then b ! i else m ! i)"
  by (induction n) (auto simp: copy_loop_length nth_list_update less_Suc_eq)

lemma copy_loop_nth_beyond:
  "n \<le> i \<Longrightarrow> foldl (\<lambda>a i. a[i := b ! i]) m [0..<n] ! i = m ! i"
  by (induction n) (auto simp: copy_loop_length)

text \<open>
  C10. \<open>ReadMove\<close> with no move pending returns false and leaves the caller's array
  \<open>m\<close>, the caller's flag \<open>ce\<close> and the state as they are. With a move pending it
  returns true, copies \<open>moveBuffer[0..DRIVES]\<close> (every drive and the feedrate) into
  \<open>m\<close>, gives \<open>checkEndStops\<close> in \<open>ce\<close>, and clears \<open>moveAvailable\<close> and
  \<open>checkEndStops\<close> in the same call; a second \<open>ReadMove\<close> then returns false.
\<close>

theorem ReadMove_consumes_move_slot:
  "(\<not> moveAvailable st \<longrightarrow> ReadMove env m ce st = ((False, m, ce), st))
   \<and> (moveAvailable st \<longrightarrow>
        (\<exists>m'. ReadMove env m ce st
                = ((True, m', checkEndStops st), st\<lparr>moveAvailable := False, checkEndStops := False\<rparr>)
           \<and> length m' = length m
           \<and> (\<forall>i. i \<le> DRIVES env \<and> i < length m \<longrightarrow> m' ! i = moveBuffer st ! i)
           \<and> (\<forall>i. DRIVES env < i \<longrightarrow> m' ! i = m ! i))
        \<and> fst (fst (ReadMove env m ce (snd (ReadMove env m ce st)))) = False)"
  by (auto simp del: upt_Suc simp: ReadMove_def copy_loop_length copy_loop_nth copy_loop_nth_beyond)


theorem ReadMove_consumes_move_slot_witness:
  "moveAvailable st_pending \<and> \<not> moveAvailable st0
   \<and> ReadMove env0 (map float_of_int [0, 0, 0, 0, 0, 9]) False st0 = ((False, (map float_of_int [0, 0, 0, 0, 0, 9]), False), st0)
   \<and> fst (ReadMove env0 (map float_of_int [0, 0, 0, 0, 0, 9]) False st_pending) = (True, map float_of_int [1, 2, 3, 4, 5, 9], True)
   \<and> \<not> moveAvailable (snd (ReadMove env0 (map float_of_int [0, 0, 0, 0, 0, 9]) False st_pending))
   \<and> \<not> checkEndStops (snd (ReadMove env0 (map float_of_int [0, 0, 0, 0, 0, 9]) False st_pending))"
proof -
  have a: "moveAvailable st_pending" "checkEndStops st_pending" "moveBuffer st_pending = map float_of_int [1, 2, 3, 4, 5]"
    by (simp_all add: st_pending_def)
  have b: "\<not> moveAvailable st0"
    by (simp add: st0_def Init_def Reset_def)
  have d: "DRIVES env0 = 4" by (simp add: env0_def)
  from ReadMove_consumes_move_slot[of st_pending env0 "map float_of_int [0, 0, 0, 0, 0, 9]" False] a
  obtain m' where m: "ReadMove env0 (map float_of_int [0, 0, 0, 0, 0, 9]) False st_pending
        = ((True, m', True), st_pending\<lparr>moveAvailable := False, checkEndStops := False\<rparr>)"
      "length m' = 6" "\<forall>i. i \<le> 4 \<and> i < 6 \<longrightarrow> m' ! i = map float_of_int [1, 2, 3, 4, 5] ! i" "\<forall>i. 4 < i \<longrightarrow> m' ! i = map float_of_int [0, 0, 0, 0, 0, 9] ! i"
    by (auto simp: d)
  have "m' = map float_of_int [1, 2, 3, 4, 5, 9]"
  proof (rule nth_equalityI)
    show "length m' = length (map float_of_int [1, 2, 3, 4, 5, 9])" using m(2) by simp
  next
    fix i assume "i < length m'"
    then have "i < 6" using m(2) by simp
    then consider "i = 0" | "i = 1" | "i = 2" | "i = 3" | "i = 4" | "i = 5" by linarith
    then show "m' ! i = map float_of_int [1, 2, 3, 4, 5, 9] ! i"
      using m(3)[rule_format, of i] m(4)[rule_format, of i] by cases simp_all
  qed
  with m(1) a b ReadMove_consumes_move_slot[of st0 env0 "map float_of_int [0, 0, 0, 0, 0, 9]" False]
  show ?thesis by simp
qed

section \<open>Push and Pop\<close>

lemma restore_loop_length: "length (foldl (\<lambda>lp i. lp[i - A := m ! i]) lp [A..<D]) = length lp"
  by (induction D) simp_all

lemma restore_loop_nth:
  "j < length lp \<Longrightarrow>
   foldl (\<lambda>lp i. lp[i - A := m ! i]) lp [A..<D] ! j = (if j + A < D then m ! (j + A) else lp ! j)"
proof (induction D)
  case 0
  then show ?case by simp
next
  case (Suc D)
  show ?case
  proof (cases "A \<le> D")
    case True
    with Suc show ?thesis
      by (cases "j = D - A") (auto simp: restore_loop_length nth_list_update)
  next
    case False
    with Suc show ?thesis by simp
  qed
qed

text \<open>
  C3, as amended. When \<open>Push\<close> saves a frame (the stack is not full, no move is
  pending, the planner is idle and gives its position \<open>m\<close>) and \<open>Pop\<close> follows at
  once with the planner unchanged, both complete; \<open>drivesRelative\<close>,
  \<open>axesRelative\<close>, \<open>distanceScale\<close>, \<open>axisIsHomed\<close>, the stack pointer and
  \<open>fileBeingPrinted\<close> are as before the \<open>Push\<close>; the move buffer holds the position
  and the feedrate the planner gave; every extruder accumulator \<open>lastPos[j]\<close> holds the
  planner's value for drive \<open>AXES + j\<close>; \<open>checkEndStops\<close> is false and
  \<open>moveAvailable\<close> is true, the null move that sets the feedrate.
\<close>

theorem Push_then_Pop_restores:
  assumes sp: "stackPointer st < STACK env"
    and idle: "\<not> moveAvailable st" "AllMovesAreFinished env" "GetCurrentUserPosition env = Some m"
    and len: "length m = DRIVES env + 1"
      "STACK env \<le> length (drivesRelativeStack st)" "STACK env \<le> length (axesRelativeStack st)"
      "STACK env \<le> length (feedrateStack st)" "STACK env \<le> length (fileStack st)"
  shows "\<exists>st1 st2. Push env st = (True, st1) \<and> Pop env st1 = (True, st2)
           \<and> drivesRelative st2 = drivesRelative st \<and> axesRelative st2 = axesRelative st
           \<and> distanceScale st2 = distanceScale st \<and> axisIsHomed st2 = axisIsHomed st
           \<and> stackPointer st2 = stackPointer st \<and> fileBeingPrinted st2 = fileBeingPrinted st
           \<and> moveBuffer st2 = m
           \<and> length (lastPos st2) = length (lastPos st)
           \<and> (\<forall>j. j < length (lastPos st) \<longrightarrow>
                  lastPos st2 ! j = (if j + AXES < DRIVES env then m ! (j + AXES) else lastPos st ! j))
           \<and> \<not> checkEndStops st2 \<and> moveAvailable st2"
proof -
  have a: "AllMovesAreFinishedAndMoveBufferIsLoaded env st
             = (True, st\<lparr>move_calls := move_calls st @ [ResumeMoving], moveBuffer := m\<rparr>)"
    using idle by (simp add: AllMovesAreFinishedAndMoveBufferIsLoaded_def)
  define st1 where "st1 = snd (Push env st)"
  have p: "Push env st = (True, st1)"
    using sp by (simp add: st1_def Push_def a)
  have st1: "st1 = st\<lparr>move_calls := move_calls st @ [ResumeMoving], moveBuffer := m,
                       drivesRelativeStack := (drivesRelativeStack st)[stackPointer st := drivesRelative st],
                       axesRelativeStack := (axesRelativeStack st)[stackPointer st := axesRelative st],
                       feedrateStack := (feedrateStack st)[stackPointer st := m ! DRIVES env],
                       fileStack := (fileStack st)[stackPointer st := fileBeingPrinted st],
                       stackPointer := stackPointer st + 1,
                       messageIndent := messageIndent st + 1\<rparr>"
    using sp by (simp add: st1_def Push_def a)
  have b: "AllMovesAreFinishedAndMoveBufferIsLoaded env st1
             = (True, st1\<lparr>move_calls := move_calls st1 @ [ResumeMoving], moveBuffer := m\<rparr>)"
    using idle by (simp add: AllMovesAreFinishedAndMoveBufferIsLoaded_def st1)
  have sp1: "stackPointer st1 = Suc (stackPointer st)" by (simp add: st1)
  define st2 where "st2 = snd (Pop env st1)"
  have q: "Pop env st1 = (True, st2)"
    using sp1 by (simp add: st2_def Pop_def b Let_def)
  have mb: "m[DRIVES env := m ! DRIVES env] = m" by simp
  have g: "drivesRelative st2 = drivesRelativeStack st1 ! (stackPointer st1 - 1)"
      "axesRelative st2 = axesRelativeStack st1 ! (stackPointer st1 - 1)"
      "distanceScale st2 = distanceScale st1" "axisIsHomed st2 = axisIsHomed st1"
      "stackPointer st2 = stackPointer st1 - 1"
      "fileBeingPrinted st2 = fileStack st1 ! (stackPointer st1 - 1)"
      "moveBuffer st2 = m[DRIVES env := feedrateStack st1 ! (stackPointer st1 - 1)]"
      "\<not> checkEndStops st2" "moveAvailable st2"
      "lastPos st2 = foldl (\<lambda>lp i. lp[i - AXES := m ! i]) (lastPos st1) [AXES..<DRIVES env]"
    using sp1 by (simp_all add: st2_def Pop_def b Let_def)
  have f: "drivesRelative st2 = drivesRelative st" "axesRelative st2 = axesRelative st"
      "distanceScale st2 = distanceScale st" "axisIsHomed st2 = axisIsHomed st"
      "stackPointer st2 = stackPointer st" "fileBeingPrinted st2 = fileBeingPrinted st"
      "moveBuffer st2 = m" "\<not> checkEndStops st2" "moveAvailable st2"
      "lastPos st2 = foldl (\<lambda>lp i. lp[i - AXES := m ! i]) (lastPos st) [AXES..<DRIVES env]"
    using sp len by (simp_all add: g st1 mb)
  show ?thesis
    using p q f by (simp add: restore_loop_length restore_loop_nth)
qed


theorem Push_then_Pop_restores_witness:
  "stackPointer st_c3 < STACK env0 \<and> \<not> moveAvailable st_c3 \<and> AllMovesAreFinished env0
   \<and> GetCurrentUserPosition env0 = Some (map float_of_int [10, 20, 30, 0, 50])
   \<and> fst (Push env0 st_c3) \<and> fst (Pop env0 (snd (Push env0 st_c3)))
   \<and> moveBuffer (snd (Pop env0 (snd (Push env0 st_c3)))) = map float_of_int [10, 20, 30, 0, 50]
   \<and> lastPos (snd (Pop env0 (snd (Push env0 st_c3)))) ! 0 = float_of_int 0
   \<and> moveAvailable (snd (Pop env0 (snd (Push env0 st_c3))))"
proof -
  have h: "stackPointer st_c3 < STACK env0" "\<not> moveAvailable st_c3" "AllMovesAreFinished env0"
      "GetCurrentUserPosition env0 = Some (map float_of_int [10, 20, 30, 0, 50])"
      "length (map float_of_int [10, 20, 30, 0, 50]) = DRIVES env0 + 1"
      "STACK env0 \<le> length (drivesRelativeStack st_c3)" "STACK env0 \<le> length (axesRelativeStack st_c3)"
      "STACK env0 \<le> length (feedrateStack st_c3)" "STACK env0 \<le> length (fileStack st_c3)"
      "length (lastPos st_c3) = 1" "DRIVES env0 = 4"
    by (simp_all add: st_c3_def st0_def Init_def Reset_def new_GCodes_def env0_def AXES_def gb_Init_def)
  from Push_then_Pop_restores[OF h(1-9)] h(10,11)
  show ?thesis using h(1-4) by (auto simp: AXES_def)
qed

text \<open>
  C3 as stated fails. In \<open>st_c3\<close> the move buffer agrees with the planner, no move is
  pending and the accumulator of the extruder is 5 (as after \<open>G92 E5\<close>, which sets the
  planner's extruder position to 0). \<open>Push\<close> and \<open>Pop\<close> complete and leave the
  accumulator at 0 and a move pending.
\<close>

theorem Push_then_Pop_counterexample:
  "stackPointer st_c3 < STACK env0 \<and> fst (Push env0 st_c3) \<and> fst (Pop env0 (snd (Push env0 st_c3)))
   \<and> moveBuffer (snd (Pop env0 (snd (Push env0 st_c3)))) = moveBuffer st_c3
   \<and> lastPos (snd (Pop env0 (snd (Push env0 st_c3)))) \<noteq> lastPos st_c3
   \<and> moveAvailable (snd (Pop env0 (snd (Push env0 st_c3)))) \<noteq> moveAvailable st_c3"
  by (simp add: st_c3_def st0_def Init_def Reset_def new_GCodes_def env0_def AXES_def Push_def Pop_def
      AllMovesAreFinishedAndMoveBufferIsLoaded_def Let_def gb_Init_def X_AXIS_def Y_AXIS_def Z_AXIS_def
      float_of_int_values)

section \<open>What the operations leave unchanged\<close>


subsection \<open>Frames\<close>

lemma set_gbuf_frame [simp]:
  "active (set_gbuf gb b st) = active st"
  "moveAvailable (set_gbuf gb b st) = moveAvailable st"
  "moveBuffer (set_gbuf gb b st) = moveBuffer st"
  "checkEndStops (set_gbuf gb b st) = checkEndStops st"
  "drivesRelative (set_gbuf gb b st) = drivesRelative st"
  "axesRelative (set_gbuf gb b st) = axesRelative st"
  "drivesRelativeStack (set_gbuf gb b st) = drivesRelativeStack st"
  "axesRelativeStack (set_gbuf gb b st) = axesRelativeStack st"
  "feedrateStack (set_gbuf gb b st) = feedrateStack st"
  "fileStack (set_gbuf gb b st) = fileStack st"
  "stackPointer (set_gbuf gb b st) = stackPointer st"
  "lastPos (set_gbuf gb b st) = lastPos st"
  "distanceScale (set_gbuf gb b st) = distanceScale st"
  "fileBeingPrinted (set_gbuf gb b st) = fileBeingPrinted st"
  "fileToPrint (set_gbuf gb b st) = fileToPrint st"
  "fileBeingWritten (set_gbuf gb b st) = fileBeingWritten st"
  "doingCannedCycleFile (set_gbuf gb b st) = doingCannedCycleFile st"
  "eofStringCounter (set_gbuf gb b st) = eofStringCounter st"
  "homeX (set_gbuf gb b st) = homeX st"
  "homeY (set_gbuf gb b st) = homeY st"
  "homeZ (set_gbuf gb b st) = homeZ st"
  "limitAxes (set_gbuf gb b st) = limitAxes st"
  "axisIsHomed (set_gbuf gb b st) = axisIsHomed st"
  "waitingForMoveToComplete (set_gbuf gb b st) = waitingForMoveToComplete st"
  "speedFactor (set_gbuf gb b st) = speedFactor st"
  "speedFactorChange (set_gbuf gb b st) = speedFactorChange st"
  "extrusionFactors (set_gbuf gb b st) = extrusionFactors st"
  "files (set_gbuf gb b st) = files st"
  "closedFiles (set_gbuf gb b st) = closedFiles st"
  "webserver_gcode (set_gbuf gb b st) = webserver_gcode st"
  "line_bytes (set_gbuf gb b st) = line_bytes st"
  "outputs (set_gbuf gb b st) = outputs st"
  "move_calls (set_gbuf gb b st) = move_calls st"
  "messageIndent (set_gbuf gb b st) = messageIndent st"
  by (cases gb; simp)+

lemma gbuf_set_gbuf [simp]:
  "gbuf gb' (set_gbuf gb b st) = (if gb' = gb then b else gbuf gb' st)"
  by (cases gb; cases gb'; simp)

lemma set_gbuf_set_gbuf [simp]: "set_gbuf gb b (set_gbuf gb b' st) = set_gbuf gb b st"
  by (cases gb; simp)

lemma set_gbuf_gbuf [simp]: "set_gbuf gb (gbuf gb st) st = st"
  by (cases gb; simp)

lemma gbuf_update [simp]:
  "gbuf gb (st\<lparr>active := v0\<rparr>) = gbuf gb st"
  "gbuf gb (st\<lparr>moveAvailable := v1\<rparr>) = gbuf gb st"
  "gbuf gb (st\<lparr>moveBuffer := v2\<rparr>) = gbuf gb st"
  "gbuf gb (st\<lparr>checkEndStops := v3\<rparr>) = gbuf gb st"
  "gbuf gb (st\<lparr>drivesRelative := v4\<rparr>) = gbuf gb st"
  "gbuf gb (st\<lparr>axesRelative := v5\<rparr>) = gbuf gb st"
  "gbuf gb (st\<lparr>drivesRelativeStack := v6\<rparr>) = gbuf gb st"
  "gbuf gb (st\<lparr>axesRelativeStack := v7\<rparr>) = gbuf gb st"
  "gbuf gb (st\<lparr>feedrateStack := v8\<rparr>) = gbuf gb st"
  "gbuf gb (st\<lparr>fileStack := v9\<rparr>) = gbuf gb st"
  "gbuf gb (st\<lparr>stackPointer := v10\<rparr>) = gbuf gb st"
  "gbuf gb (st\<lparr>lastPos := v11\<rparr>) = gbuf gb st"
  "gbuf gb (st\<lparr>distanceScale := v12\<rparr>) = gbuf gb st"
  "gbuf gb (st\<lparr>fileBeingPrinted := v13\<rparr>) = gbuf gb st"
  "gbuf gb (st\<lparr>fileToPrint := v14\<rparr>) = gbuf gb st"
  "gbuf gb (st\<lparr>fileBeingWritten := v15\<rparr>) = gbuf gb st"
  "gbuf gb (st\<lparr>doingCannedCycleFile := v16\<rparr>) = gbuf gb st"
  "gbuf gb (st\<lparr>eofStringCounter := v17\<rparr>) = gbuf gb st"
  "gbuf gb (st\<lparr>homeX := v18\<rparr>) = gbuf gb st"
  "gbuf gb (st\<lparr>homeY := v19\<rparr>) = gbuf gb st"
  "gbuf gb (st\<lparr>homeZ := v20\<rparr>) = gbuf gb st"
  "gbuf gb (st\<lparr>limitAxes := v21\<rparr>) = gbuf gb st"
  "gbuf gb (st\<lparr>axisIsHomed := v22\<rparr>) = gbuf gb st"
  "gbuf gb (st\<lparr>waitingForMoveToComplete := v23\<rparr>) = gbuf gb st"
  "gbuf gb (st\<lparr>speedFactor := v24\<rparr>) = gbuf gb st"
  "gbuf gb (st\<lparr>speedFactorChange := v25\<rparr>) = gbuf gb st"
  "gbuf gb (st\<lparr>extrusionFactors := v26\<rparr>) = gbuf gb st"
  "gbuf gb (st\<lparr>files := v27\<rparr>) = gbuf gb st"
  "gbuf gb (st\<lparr>closedFiles := v28\<rparr>) = gbuf gb st"
  "gbuf gb (st\<lparr>webserver_gcode := v29\<rparr>) = gbuf gb st"
  "gbuf gb (st\<lparr>line_bytes := v30\<rparr>) = gbuf gb st"
  "gbuf gb (st\<lparr>outputs := v31\<rparr>) = gbuf gb st"
  "gbuf gb (st\<lparr>move_calls := v32\<rparr>) = gbuf gb st"
  "gbuf gb (st\<lparr>messageIndent := v33\<rparr>) = gbuf gb st"
  by (cases gb; simp)+

lemma gb_Seen_eq:
  "gb_Seen gb c st = (0 \<le> Seen_scan c (gcodeBuffer (gbuf gb st)) 0,
                      set_gbuf gb ((gbuf gb st)\<lparr>readPointer := Seen_scan c (gcodeBuffer (gbuf gb st)) 0\<rparr>) st)"
  by (simp add: gb_Seen_def Seen_def Let_def)

lemma gb_GetIValue_eq:
  "gb_GetIValue gb st = (fst (GetIValue (gbuf gb st)), set_gbuf gb (snd (GetIValue (gbuf gb st))) st)"
  by (simp add: gb_GetIValue_def split_def Let_def)

lemma gb_GetFValue_eq:
  "gb_GetFValue gb st = (fst (GetFValue (gbuf gb st)), set_gbuf gb (snd (GetFValue (gbuf gb st))) st)"
  by (simp add: gb_GetFValue_def split_def Let_def)

lemma gb_GetFloatArray_eq:
  "gb_GetFloatArray gb n st = (fst (GetFloatArray n (gbuf gb st)), set_gbuf gb (snd (GetFloatArray n (gbuf gb st))) st)"
  by (simp add: gb_GetFloatArray_def split_def Let_def)

lemma gb_GetString_eq:
  "gb_GetString gb st = (fst (GetString (gbuf gb st)), set_gbuf gb (snd (GetString (gbuf gb st))) st)"
  by (simp add: gb_GetString_def split_def Let_def)

lemmas gb_eqs = gb_Seen_eq gb_GetIValue_eq gb_GetFValue_eq gb_GetFloatArray_eq gb_GetString_eq

lemma GetIValue_text [simp]: "gcodeBuffer (snd (GetIValue g)) = gcodeBuffer g"
  by (simp add: GetIValue_def GetLValue_def Message_def)

lemma GetFValue_text [simp]: "gcodeBuffer (snd (GetFValue g)) = gcodeBuffer g"
  by (simp add: GetFValue_def Message_def)

lemma GetFloatArray_text [simp]: "gcodeBuffer (snd (GetFloatArray n g)) = gcodeBuffer g"
  by (simp add: GetFloatArray_def Message_def split: option.splits)

lemma GetString_text [simp]: "gcodeBuffer (snd (GetString g)) = gcodeBuffer g"
  by (simp add: GetString_def Message_def)

lemma texts_set_gbuf [simp]:
  "gcodeBuffer b = gcodeBuffer (gbuf gb st) \<Longrightarrow> texts (set_gbuf gb b st) = texts st"
  by (cases gb; simp add: texts_def)


lemma texts_update [simp]:
  "texts (st\<lparr>active := v0\<rparr>) = texts st"
  "texts (st\<lparr>moveAvailable := v1\<rparr>) = texts st"
  "texts (st\<lparr>moveBuffer := v2\<rparr>) = texts st"
  "texts (st\<lparr>checkEndStops := v3\<rparr>) = texts st"
  "texts (st\<lparr>drivesRelative := v4\<rparr>) = texts st"
  "texts (st\<lparr>axesRelative := v5\<rparr>) = texts st"
  "texts (st\<lparr>drivesRelativeStack := v6\<rparr>) = texts st"
  "texts (st\<lparr>axesRelativeStack := v7\<rparr>) = texts st"
  "texts (st\<lparr>feedrateStack := v8\<rparr>) = texts st"
  "texts (st\<lparr>fileStack := v9\<rparr>) = texts st"
  "texts (st\<lparr>stackPointer := v10\<rparr>) = texts st"
  "texts (st\<lparr>lastPos := v11\<rparr>) = texts st"
  "texts (st\<lparr>distanceScale := v12\<rparr>) = texts st"
  "texts (st\<lparr>fileBeingPrinted := v13\<rparr>) = texts st"
  "texts (st\<lparr>fileToPrint := v14\<rparr>) = texts st"
  "texts (st\<lparr>fileBeingWritten := v15\<rparr>) = texts st"
  "texts (st\<lparr>doingCannedCycleFile := v16\<rparr>) = texts st"
  "texts (st\<lparr>eofStringCounter := v17\<rparr>) = texts st"
  "texts (st\<lparr>homeX := v18\<rparr>) = texts st"
  "texts (st\<lparr>homeY := v19\<rparr>) = texts st"
  "texts (st\<lparr>homeZ := v20\<rparr>) = texts st"
  "texts (st\<lparr>limitAxes := v21\<rparr>) = texts st"
  "texts (st\<lparr>axisIsHomed := v22\<rparr>) = texts st"
  "texts (st\<lparr>waitingForMoveToComplete := v23\<rparr>) = texts st"
  "texts (st\<lparr>speedFactor := v24\<rparr>) = texts st"
  "texts (st\<lparr>speedFactorChange := v25\<rparr>) = texts st"
  "texts (st\<lparr>extrusionFactors := v26\<rparr>) = texts st"
  "texts (st\<lparr>files := v27\<rparr>) = texts st"
  "texts (st\<lparr>closedFiles := v28\<rparr>) = texts st"
  "texts (st\<lparr>webserver_gcode := v29\<rparr>) = texts st"
  "texts (st\<lparr>line_bytes := v30\<rparr>) = texts st"
  "texts (st\<lparr>outputs := v31\<rparr>) = texts st"
  "texts (st\<lparr>move_calls := v32\<rparr>) = texts st"
  "texts (st\<lparr>messageIndent := v33\<rparr>) = texts st"
  by (simp_all add: texts_def)

lemma foldl_invariant:
  "(\<And>s x. P (f s x) = P s) \<Longrightarrow> P (foldl f s xs) = P s"
  by (induction xs arbitrary: s) simp_all

lemma platform_Message_frame [simp]:
  "texts (platform_Message t s st) = texts st"
  "moveAvailable (platform_Message t s st) = moveAvailable st"
  "moveBuffer (platform_Message t s st) = moveBuffer st"
  "checkEndStops (platform_Message t s st) = checkEndStops st"
  "waitingForMoveToComplete (platform_Message t s st) = waitingForMoveToComplete st"
  "lastPos (platform_Message t s st) = lastPos st"
  "axisIsHomed (platform_Message t s st) = axisIsHomed st"
  "files (platform_Message t s st) = files st"
  "fileBeingPrinted (platform_Message t s st) = fileBeingPrinted st"
  by (simp_all add: platform_Message_def)

lemma line_Write_frame [simp]:
  "texts (line_Write s st) = texts st"
  "moveAvailable (line_Write s st) = moveAvailable st"
  "moveBuffer (line_Write s st) = moveBuffer st"
  "checkEndStops (line_Write s st) = checkEndStops st"
  "waitingForMoveToComplete (line_Write s st) = waitingForMoveToComplete st"
  "lastPos (line_Write s st) = lastPos st"
  "axisIsHomed (line_Write s st) = axisIsHomed st"
  "files (line_Write s st) = files st"
  "fileBeingPrinted (line_Write s st) = fileBeingPrinted st"
  by (simp_all add: line_Write_def)


lemma HandleReply_outputs:
  "HandleReply env error fromLine reply gMOrT code resend st
     = st\<lparr>outputs := outputs (HandleReply env error fromLine reply gMOrT code resend st)\<rparr>"
  by (cases "if \<not> fromLine then me else Emulating env")
     (simp_all add: HandleReply_def Let_def platform_Message_def line_Write_def)

lemma HandleReply_frame [simp]:
  "texts (HandleReply env error fromLine reply gMOrT code resend st) = texts st"
  "moveAvailable (HandleReply env error fromLine reply gMOrT code resend st) = moveAvailable st"
  "moveBuffer (HandleReply env error fromLine reply gMOrT code resend st) = moveBuffer st"
  "checkEndStops (HandleReply env error fromLine reply gMOrT code resend st) = checkEndStops st"
  "waitingForMoveToComplete (HandleReply env error fromLine reply gMOrT code resend st) = waitingForMoveToComplete st"
  "lastPos (HandleReply env error fromLine reply gMOrT code resend st) = lastPos st"
  "axisIsHomed (HandleReply env error fromLine reply gMOrT code resend st) = axisIsHomed st"
  "files (HandleReply env error fromLine reply gMOrT code resend st) = files st"
  "fileBeingPrinted (HandleReply env error fromLine reply gMOrT code resend st) = fileBeingPrinted st"
  "doingCannedCycleFile (HandleReply env error fromLine reply gMOrT code resend st) = doingCannedCycleFile st"
  "distanceScale (HandleReply env error fromLine reply gMOrT code resend st) = distanceScale st"
  "drivesRelative (HandleReply env error fromLine reply gMOrT code resend st) = drivesRelative st"
  by (subst HandleReply_outputs, simp)+


lemma AllMoves_eq:
  "AllMovesAreFinishedAndMoveBufferIsLoaded env st =
     (if moveAvailable st \<or> \<not> AllMovesAreFinished env then (False, st)
      else case GetCurrentUserPosition env of
             None \<Rightarrow> (False, st\<lparr>move_calls := move_calls st @ [ResumeMoving]\<rparr>)
           | Some m \<Rightarrow> (True, st\<lparr>move_calls := move_calls st @ [ResumeMoving], moveBuffer := m\<rparr>))"
  by (simp add: AllMovesAreFinishedAndMoveBufferIsLoaded_def Let_def split: option.splits)

lemma AllMoves_frame [simp]:
  "texts (snd (AllMovesAreFinishedAndMoveBufferIsLoaded env st)) = texts st"
  "moveAvailable (snd (AllMovesAreFinishedAndMoveBufferIsLoaded env st)) = moveAvailable st"
  "checkEndStops (snd (AllMovesAreFinishedAndMoveBufferIsLoaded env st)) = checkEndStops st"
  "waitingForMoveToComplete (snd (AllMovesAreFinishedAndMoveBufferIsLoaded env st)) = waitingForMoveToComplete st"
  "lastPos (snd (AllMovesAreFinishedAndMoveBufferIsLoaded env st)) = lastPos st"
  "axisIsHomed (snd (AllMovesAreFinishedAndMoveBufferIsLoaded env st)) = axisIsHomed st"
  by (simp_all add: AllMoves_eq split: option.splits)


lemma AllMoves_gate_set_gbuf [simp]:
  "fst (AllMovesAreFinishedAndMoveBufferIsLoaded env (set_gbuf gb b st))
     = fst (AllMovesAreFinishedAndMoveBufferIsLoaded env st)"
  by (simp add: AllMoves_eq split: option.splits)


lemma extruder_step_texts [simp]: "texts (extruder_step g92 tool em st e) = texts st"
  by (simp add: extruder_step_def Let_def)

lemma axis_step_texts [simp]: "texts (axis_step env gb g92 lims st axis) = texts st"
  by (simp add: axis_step_def Let_def gb_eqs)

lemma load_extruders_texts [simp]: "texts (snd (load_extruders env gb g92 st)) = texts st"
  by (simp add: load_extruders_def Let_def gb_eqs split_def foldl_invariant[where P=texts] split: option.splits)

lemma LoadMoveBufferFromGCode_texts [simp]:
  "texts (snd (LoadMoveBufferFromGCode env gb g92 lims st)) = texts st"
  by (simp add: LoadMoveBufferFromGCode_def Let_def gb_eqs split_def foldl_invariant[where P=texts])

lemma SetUpMove_texts [simp]: "texts (snd (SetUpMove env gb st)) = texts st"
  by (simp add: SetUpMove_def Let_def gb_eqs split_def split: option.splits)


section \<open>The handler of G0 and G1\<close>







lemma extruder_step_checkEndStops [simp]: "checkEndStops (extruder_step g92 tool em st e) = checkEndStops st"
  by (simp add: extruder_step_def Let_def)

lemma axis_step_checkEndStops [simp]: "checkEndStops (axis_step env gb g92 lims st axis) = checkEndStops st"
  by (simp add: axis_step_def Let_def gb_eqs)

lemma load_extruders_checkEndStops [simp]:
  "checkEndStops (snd (load_extruders env gb g92 st)) = checkEndStops st"
  by (simp add: load_extruders_def Let_def gb_eqs split_def foldl_invariant[where P=checkEndStops]
      split: option.splits)

lemma LoadMoveBufferFromGCode_checkEndStops [simp]:
  "checkEndStops (snd (LoadMoveBufferFromGCode env gb g92 lims st)) = checkEndStops st"
  by (simp add: LoadMoveBufferFromGCode_def Let_def gb_eqs split_def foldl_invariant[where P=checkEndStops])

lemma SetUpMove_S1:
  assumes "\<not> moveAvailable st" "GetCurrentUserPosition env = Some m"
    and "0 \<le> Seen_scan (CHR ''S'') (gcodeBuffer (gbuf gb st)) 0"
    and "strtol (cstr_at (gcodeBuffer (gbuf gb st)) (nat (Seen_scan (CHR ''S'') (gcodeBuffer (gbuf gb st)) 0 + 1))) = 1"
  shows "fst (SetUpMove env gb st) = 2"
  using assms
  by (simp add: SetUpMove_def Let_def gb_eqs split_def GetIValue_def GetLValue_def)



lemma ReadMove_frame [simp]:
  "texts (snd (ReadMove env m ce st)) = texts st"
  "waitingForMoveToComplete (snd (ReadMove env m ce st)) = waitingForMoveToComplete st"
  by (simp_all add: ReadMove_def)


section \<open>Loading the move buffer from a command\<close>

lemma zero_loop_length [simp]: "length (foldl (\<lambda>m drive. m[drive := z]) m xs) = length m"
  by (induction xs arbitrary: m) simp_all

lemma zero_loop_nth:
  "i < length m \<Longrightarrow> foldl (\<lambda>m drive. m[drive := z]) m xs ! i = (if i \<in> set xs then z else m ! i)"
  by (induction xs arbitrary: m) (auto simp: nth_list_update)

lemma extruder_step_frame [simp]:
  "axisIsHomed (extruder_step g92 tool em st e) = axisIsHomed st"
  "distanceScale (extruder_step g92 tool em st e) = distanceScale st"
  "drivesRelative (extruder_step g92 tool em st e) = drivesRelative st"
  "axesRelative (extruder_step g92 tool em st e) = axesRelative st"
  "extrusionFactors (extruder_step g92 tool em st e) = extrusionFactors st"
  "speedFactor (extruder_step g92 tool em st e) = speedFactor st"
  "moveAvailable (extruder_step g92 tool em st e) = moveAvailable st"
  "move_calls (extruder_step g92 tool em st e) = move_calls st"
  "waitingForMoveToComplete (extruder_step g92 tool em st e) = waitingForMoveToComplete st"
  "gbuf gb (extruder_step g92 tool em st e) = gbuf gb st"
  "length (moveBuffer (extruder_step g92 tool em st e)) = length (moveBuffer st)"
  "length (lastPos (extruder_step g92 tool em st e)) = length (lastPos st)"
  by (simp_all add: extruder_step_def Let_def)

lemma extruder_loop_frame [simp]:
  "axisIsHomed (foldl (extruder_step g92 tool em) st xs) = axisIsHomed st"
  "distanceScale (foldl (extruder_step g92 tool em) st xs) = distanceScale st"
  "drivesRelative (foldl (extruder_step g92 tool em) st xs) = drivesRelative st"
  "axesRelative (foldl (extruder_step g92 tool em) st xs) = axesRelative st"
  "extrusionFactors (foldl (extruder_step g92 tool em) st xs) = extrusionFactors st"
  "speedFactor (foldl (extruder_step g92 tool em) st xs) = speedFactor st"
  "moveAvailable (foldl (extruder_step g92 tool em) st xs) = moveAvailable st"
  "move_calls (foldl (extruder_step g92 tool em) st xs) = move_calls st"
  "waitingForMoveToComplete (foldl (extruder_step g92 tool em) st xs) = waitingForMoveToComplete st"
  "gbuf gb (foldl (extruder_step g92 tool em) st xs) = gbuf gb st"
  "length (moveBuffer (foldl (extruder_step g92 tool em) st xs)) = length (moveBuffer st)"
  "length (lastPos (foldl (extruder_step g92 tool em) st xs)) = length (lastPos st)"
  by (induction xs arbitrary: st; simp)+

text \<open>The extruder loop, drive by drive, when the drives of the tool are distinct.\<close>

lemma extruder_loop_moveBuffer_other:
  "\<forall>e \<in> set xs. tool ! e + AXES \<noteq> i \<Longrightarrow>
   moveBuffer (foldl (extruder_step g92 tool em) st xs) ! i = moveBuffer st ! i"
  by (induction xs arbitrary: st) (auto simp: extruder_step_def Let_def)

lemma extruder_loop_lastPos_other:
  "\<forall>e \<in> set xs. tool ! e \<noteq> d \<Longrightarrow>
   lastPos (foldl (extruder_step g92 tool em) st xs) ! d = lastPos st ! d"
  by (induction xs arbitrary: st) (auto simp: extruder_step_def Let_def)

lemma extruder_loop_drive:
  assumes "distinct tool" "k \<le> length tool" "j < k"
    and "tool ! j < length (lastPos st)" "tool ! j + AXES < length (moveBuffer st)"
  shows "lastPos (foldl (extruder_step g92 tool em) st [0..<k]) ! (tool ! j)
           = (if g92 then fmul (em ! j) (distanceScale st)
              else if drivesRelative st then fadd (lastPos st ! (tool ! j)) (fmul (em ! j) (distanceScale st))
              else fmul (em ! j) (distanceScale st))
         \<and> moveBuffer (foldl (extruder_step g92 tool em) st [0..<k]) ! (tool ! j + AXES)
           = (if g92 then zero_f
              else if drivesRelative st then fmul (fmul (em ! j) (distanceScale st)) (extrusionFactors st ! (tool ! j))
              else fmul (fsub (fmul (em ! j) (distanceScale st)) (lastPos st ! (tool ! j))) (extrusionFactors st ! (tool ! j)))"
  using assms
proof (induction k)
  case 0
  then show ?case by simp
next
  case (Suc k)
  let ?s = "foldl (extruder_step g92 tool em) st [0..<k]"
  have fold: "foldl (extruder_step g92 tool em) st [0..<Suc k] = extruder_step g92 tool em ?s k" by simp
  show ?case
  proof (cases "j = k")
    case True
    have "\<forall>e \<in> set [0..<k]. tool ! e \<noteq> tool ! k"
      using Suc.prems(1,2) by (auto simp: nth_eq_iff_index_eq)
    then have lp: "lastPos ?s ! (tool ! k) = lastPos st ! (tool ! k)"
      by (rule extruder_loop_lastPos_other)
    show ?thesis
      unfolding fold using True Suc.prems(4,5) lp
      by (cases g92) (simp_all add: extruder_step_def Let_def)
  next
    case False
    with Suc.prems have j: "j < k" by simp
    have ne: "tool ! k \<noteq> tool ! j"
      using Suc.prems(1,2) j by (auto simp: nth_eq_iff_index_eq)
    from Suc.IH[OF Suc.prems(1) _ j Suc.prems(4,5)] Suc.prems(2)
    have ih: "lastPos ?s ! (tool ! j)
           = (if g92 then fmul (em ! j) (distanceScale st)
              else if drivesRelative st then fadd (lastPos st ! (tool ! j)) (fmul (em ! j) (distanceScale st))
              else fmul (em ! j) (distanceScale st))"
      "moveBuffer ?s ! (tool ! j + AXES)
           = (if g92 then zero_f
              else if drivesRelative st then fmul (fmul (em ! j) (distanceScale st)) (extrusionFactors st ! (tool ! j))
              else fmul (fsub (fmul (em ! j) (distanceScale st)) (lastPos st ! (tool ! j))) (extrusionFactors st ! (tool ! j)))"
      by simp_all
    show ?thesis
      unfolding fold using ne ih
      by (cases g92) (simp_all add: extruder_step_def Let_def)
  qed
qed

lemma Seen_scan_range: "Seen_scan c buf n = - 1 \<or> int n \<le> Seen_scan c buf n"
  by (induction buf arbitrary: n) (auto, force)

lemma Seen_scan_not_seen: "\<not> 0 \<le> Seen_scan c buf 0 \<Longrightarrow> Seen_scan c buf 0 = - 1"
  using Seen_scan_range[of c buf 0] by auto

lemma GetFValue_seen:
  "0 \<le> rp \<Longrightarrow> GetFValue (g\<lparr>readPointer := rp\<rparr>)
     = (to_float (strtod (cstr_at (gcodeBuffer g) (nat (rp + 1)))), g\<lparr>readPointer := - 1\<rparr>)"
  by (simp add: GetFValue_def)


lemma axis_step_frame [simp]:
  "distanceScale (axis_step env gb g92 lims st axis) = distanceScale st"
  "drivesRelative (axis_step env gb g92 lims st axis) = drivesRelative st"
  "axesRelative (axis_step env gb g92 lims st axis) = axesRelative st"
  "lastPos (axis_step env gb g92 lims st axis) = lastPos st"
  "extrusionFactors (axis_step env gb g92 lims st axis) = extrusionFactors st"
  "speedFactor (axis_step env gb g92 lims st axis) = speedFactor st"
  "moveAvailable (axis_step env gb g92 lims st axis) = moveAvailable st"
  "move_calls (axis_step env gb g92 lims st axis) = move_calls st"
  "waitingForMoveToComplete (axis_step env gb g92 lims st axis) = waitingForMoveToComplete st"
  "gcodeBuffer (gbuf gb' (axis_step env gb g92 lims st axis)) = gcodeBuffer (gbuf gb' st)"
  "length (moveBuffer (axis_step env gb g92 lims st axis)) = length (moveBuffer st)"
  "length (axisIsHomed (axis_step env gb g92 lims st axis)) = length (axisIsHomed st)"
  by (simp_all add: axis_step_def gb_eqs Let_def)

lemma axis_loop_frame [simp]:
  "distanceScale (foldl (axis_step env gb g92 lims) st xs) = distanceScale st"
  "drivesRelative (foldl (axis_step env gb g92 lims) st xs) = drivesRelative st"
  "axesRelative (foldl (axis_step env gb g92 lims) st xs) = axesRelative st"
  "lastPos (foldl (axis_step env gb g92 lims) st xs) = lastPos st"
  "extrusionFactors (foldl (axis_step env gb g92 lims) st xs) = extrusionFactors st"
  "speedFactor (foldl (axis_step env gb g92 lims) st xs) = speedFactor st"
  "moveAvailable (foldl (axis_step env gb g92 lims) st xs) = moveAvailable st"
  "move_calls (foldl (axis_step env gb g92 lims) st xs) = move_calls st"
  "waitingForMoveToComplete (foldl (axis_step env gb g92 lims) st xs) = waitingForMoveToComplete st"
  "gcodeBuffer (gbuf gb' (foldl (axis_step env gb g92 lims) st xs)) = gcodeBuffer (gbuf gb' st)"
  "length (moveBuffer (foldl (axis_step env gb g92 lims) st xs)) = length (moveBuffer st)"
  "length (axisIsHomed (foldl (axis_step env gb g92 lims) st xs)) = length (axisIsHomed st)"
  by (induction xs arbitrary: st; simp)+


lemma gb_Seen_E_values:
  "fst (gb_GetFloatArray gb n (snd (gb_Seen gb EXTRUDE_LETTER st))) = E_values n (gbuf gb st)"
  by (simp add: gb_eqs E_values_def Seen_def Let_def)

lemma load_extruders_not_seen:
  assumes "\<not> field_seen EXTRUDE_LETTER (gcodeBuffer (gbuf gb st))"
  shows "fst (load_extruders env gb g92 st)"
    "moveBuffer (snd (load_extruders env gb g92 st)) = moveBuffer st"
    "lastPos (snd (load_extruders env gb g92 st)) = lastPos st"
  using assms by (simp_all add: load_extruders_def gb_eqs Let_def field_seen_def)

lemma load_extruders_seen:
  assumes "field_seen EXTRUDE_LETTER (gcodeBuffer (gbuf gb st))" "GetCurrentTool env = Some drives"
    "snd (E_values (length drives) (gbuf gb st)) = length drives"
  shows "fst (load_extruders env gb g92 st)"
    "snd (load_extruders env gb g92 st)
       = foldl (extruder_step g92 drives (fst (E_values (length drives) (gbuf gb st))))
           ((snd (gb_GetFloatArray gb (length drives) (snd (gb_Seen gb EXTRUDE_LETTER st))))
              \<lparr>moveBuffer := foldl (\<lambda>m drive. m[drive := zero_f]) (moveBuffer st) [AXES..<DRIVES env]\<rparr>)
           [0..<length drives]"
proof -
  have s: "0 \<le> Seen_scan EXTRUDE_LETTER (gcodeBuffer (gbuf gb st)) 0"
    using assms(1) by (simp add: field_seen_def)
  have e: "E_values (length drives) (gbuf gb st)
      = fst (GetFloatArray (length drives)
               ((gbuf gb st)\<lparr>readPointer := Seen_scan EXTRUDE_LETTER (gcodeBuffer (gbuf gb st)) 0\<rparr>))"
    by (simp add: E_values_def Seen_def Let_def)
  show "fst (load_extruders env gb g92 st)"
    using s assms(2,3) by (simp add: load_extruders_def gb_eqs Let_def split_def e)
  show "snd (load_extruders env gb g92 st)
       = foldl (extruder_step g92 drives (fst (E_values (length drives) (gbuf gb st))))
           ((snd (gb_GetFloatArray gb (length drives) (snd (gb_Seen gb EXTRUDE_LETTER st))))
              \<lparr>moveBuffer := foldl (\<lambda>m drive. m[drive := zero_f]) (moveBuffer st) [AXES..<DRIVES env]\<rparr>)
           [0..<length drives]"
    using s assms(2,3) by (simp add: load_extruders_def gb_eqs Let_def split_def e)
qed

lemma load_extruders_frame [simp]:
  "axisIsHomed (snd (load_extruders env gb g92 st)) = axisIsHomed st"
  "distanceScale (snd (load_extruders env gb g92 st)) = distanceScale st"
  "drivesRelative (snd (load_extruders env gb g92 st)) = drivesRelative st"
  "axesRelative (snd (load_extruders env gb g92 st)) = axesRelative st"
  "extrusionFactors (snd (load_extruders env gb g92 st)) = extrusionFactors st"
  "speedFactor (snd (load_extruders env gb g92 st)) = speedFactor st"
  "moveAvailable (snd (load_extruders env gb g92 st)) = moveAvailable st"
  "move_calls (snd (load_extruders env gb g92 st)) = move_calls st"
  "waitingForMoveToComplete (snd (load_extruders env gb g92 st)) = waitingForMoveToComplete st"
  "gcodeBuffer (gbuf gb' (snd (load_extruders env gb g92 st))) = gcodeBuffer (gbuf gb' st)"
  "length (moveBuffer (snd (load_extruders env gb g92 st))) = length (moveBuffer st)"
  "length (lastPos (snd (load_extruders env gb g92 st))) = length (lastPos st)"
  by (simp_all add: load_extruders_def gb_eqs Let_def split_def platform_Message_def split: option.splits)

text \<open>The extruder slots and the accumulators after the extrusion part, for a tool with distinct drives.\<close>

lemma load_extruders_slots:
  assumes seen: "field_seen EXTRUDE_LETTER (gcodeBuffer (gbuf gb st))" "GetCurrentTool env = Some drives"
    "snd (E_values (length drives) (gbuf gb st)) = length drives"
    and wf: "distinct drives" "\<forall>d \<in> set drives. d < DRIVES env - AXES"
      "length (lastPos st) = DRIVES env - AXES" "length (moveBuffer st) = DRIVES env + 1"
  shows "\<forall>k. k < length drives \<longrightarrow>
           lastPos (snd (load_extruders env gb g92 st)) ! (drives ! k)
             = (if g92 then fmul (fst (E_values (length drives) (gbuf gb st)) ! k) (distanceScale st)
                else if drivesRelative st
                     then fadd (lastPos st ! (drives ! k)) (fmul (fst (E_values (length drives) (gbuf gb st)) ! k) (distanceScale st))
                else fmul (fst (E_values (length drives) (gbuf gb st)) ! k) (distanceScale st))
           \<and> moveBuffer (snd (load_extruders env gb g92 st)) ! (drives ! k + AXES)
             = (if g92 then zero_f
                else if drivesRelative st
                     then fmul (fmul (fst (E_values (length drives) (gbuf gb st)) ! k) (distanceScale st)) (extrusionFactors st ! (drives ! k))
                else fmul (fsub (fmul (fst (E_values (length drives) (gbuf gb st)) ! k) (distanceScale st)) (lastPos st ! (drives ! k)))
                       (extrusionFactors st ! (drives ! k)))"
    and "\<forall>i. i < DRIVES env + 1 \<and> (\<forall>k. k < length drives \<longrightarrow> drives ! k + AXES \<noteq> i) \<longrightarrow>
           moveBuffer (snd (load_extruders env gb g92 st)) ! i
             = (if AXES \<le> i \<and> i < DRIVES env then zero_f else moveBuffer st ! i)"
    and "\<forall>d. (\<forall>k. k < length drives \<longrightarrow> drives ! k \<noteq> d) \<longrightarrow>
           lastPos (snd (load_extruders env gb g92 st)) ! d = lastPos st ! d"
proof -
  let ?em = "fst (E_values (length drives) (gbuf gb st))"
  define s3 where "s3 = (snd (gb_GetFloatArray gb (length drives) (snd (gb_Seen gb EXTRUDE_LETTER st))))
              \<lparr>moveBuffer := foldl (\<lambda>m drive. m[drive := zero_f]) (moveBuffer st) [AXES..<DRIVES env]\<rparr>"
  have eq: "snd (load_extruders env gb g92 st) = foldl (extruder_step g92 drives ?em) s3 [0..<length drives]"
    unfolding s3_def by (rule load_extruders_seen(2)[OF seen])
  have f: "lastPos s3 = lastPos st" "distanceScale s3 = distanceScale st" "drivesRelative s3 = drivesRelative st"
      "extrusionFactors s3 = extrusionFactors st" "length (moveBuffer s3) = DRIVES env + 1"
      "moveBuffer s3 = foldl (\<lambda>m drive. m[drive := zero_f]) (moveBuffer st) [AXES..<DRIVES env]"
    using wf(4) by (simp_all add: s3_def gb_eqs)
  show "\<forall>k. k < length drives \<longrightarrow>
           lastPos (snd (load_extruders env gb g92 st)) ! (drives ! k)
             = (if g92 then fmul (?em ! k) (distanceScale st)
                else if drivesRelative st then fadd (lastPos st ! (drives ! k)) (fmul (?em ! k) (distanceScale st))
                else fmul (?em ! k) (distanceScale st))
           \<and> moveBuffer (snd (load_extruders env gb g92 st)) ! (drives ! k + AXES)
             = (if g92 then zero_f
                else if drivesRelative st then fmul (fmul (?em ! k) (distanceScale st)) (extrusionFactors st ! (drives ! k))
                else fmul (fsub (fmul (?em ! k) (distanceScale st)) (lastPos st ! (drives ! k))) (extrusionFactors st ! (drives ! k)))"
  proof (intro allI impI)
    fix k assume k: "k < length drives"
    then have d: "drives ! k < DRIVES env - AXES" using wf(2) by simp
    have b: "drives ! k < length (lastPos s3)" "drives ! k + AXES < length (moveBuffer s3)"
      using d wf(3) f by simp_all
    from extruder_loop_drive[OF wf(1) le_refl k b, of g92 ?em]
    show "lastPos (snd (load_extruders env gb g92 st)) ! (drives ! k)
             = (if g92 then fmul (?em ! k) (distanceScale st)
                else if drivesRelative st then fadd (lastPos st ! (drives ! k)) (fmul (?em ! k) (distanceScale st))
                else fmul (?em ! k) (distanceScale st))
           \<and> moveBuffer (snd (load_extruders env gb g92 st)) ! (drives ! k + AXES)
             = (if g92 then zero_f
                else if drivesRelative st then fmul (fmul (?em ! k) (distanceScale st)) (extrusionFactors st ! (drives ! k))
                else fmul (fsub (fmul (?em ! k) (distanceScale st)) (lastPos st ! (drives ! k))) (extrusionFactors st ! (drives ! k)))"
      by (simp add: eq f)
  qed
  show "\<forall>i. i < DRIVES env + 1 \<and> (\<forall>k. k < length drives \<longrightarrow> drives ! k + AXES \<noteq> i) \<longrightarrow>
           moveBuffer (snd (load_extruders env gb g92 st)) ! i
             = (if AXES \<le> i \<and> i < DRIVES env then zero_f else moveBuffer st ! i)"
  proof (intro allI impI)
    fix i assume i: "i < DRIVES env + 1 \<and> (\<forall>k. k < length drives \<longrightarrow> drives ! k + AXES \<noteq> i)"
    then have "\<forall>e \<in> set [0..<length drives]. drives ! e + AXES \<noteq> i" by simp
    from extruder_loop_moveBuffer_other[OF this, of g92 ?em s3]
    have "moveBuffer (snd (load_extruders env gb g92 st)) ! i = moveBuffer s3 ! i"
      by (simp add: eq)
    also have "\<dots> = (if AXES \<le> i \<and> i < DRIVES env then zero_f else moveBuffer st ! i)"
      using i wf(4) by (simp add: f(6) zero_loop_nth)
    finally show "moveBuffer (snd (load_extruders env gb g92 st)) ! i
             = (if AXES \<le> i \<and> i < DRIVES env then zero_f else moveBuffer st ! i)" .
  qed
  show "\<forall>d. (\<forall>k. k < length drives \<longrightarrow> drives ! k \<noteq> d) \<longrightarrow>
           lastPos (snd (load_extruders env gb g92 st)) ! d = lastPos st ! d"
  proof (intro allI impI)
    fix d assume "\<forall>k. k < length drives \<longrightarrow> drives ! k \<noteq> d"
    then have "\<forall>e \<in> set [0..<length drives]. drives ! e \<noteq> d" by simp
    from extruder_loop_lastPos_other[OF this, of g92 ?em s3]
    show "lastPos (snd (load_extruders env gb g92 st)) ! d = lastPos st ! d"
      by (simp add: eq f)
  qed
qed



lemma LoadMoveBufferFromGCode_frame [simp]:
  "distanceScale (snd (LoadMoveBufferFromGCode env gb g92 lims st)) = distanceScale st"
  "drivesRelative (snd (LoadMoveBufferFromGCode env gb g92 lims st)) = drivesRelative st"
  "axesRelative (snd (LoadMoveBufferFromGCode env gb g92 lims st)) = axesRelative st"
  "extrusionFactors (snd (LoadMoveBufferFromGCode env gb g92 lims st)) = extrusionFactors st"
  "speedFactor (snd (LoadMoveBufferFromGCode env gb g92 lims st)) = speedFactor st"
  "moveAvailable (snd (LoadMoveBufferFromGCode env gb g92 lims st)) = moveAvailable st"
  "move_calls (snd (LoadMoveBufferFromGCode env gb g92 lims st)) = move_calls st"
  "waitingForMoveToComplete (snd (LoadMoveBufferFromGCode env gb g92 lims st)) = waitingForMoveToComplete st"
  "gcodeBuffer (gbuf gb' (snd (LoadMoveBufferFromGCode env gb g92 lims st))) = gcodeBuffer (gbuf gb' st)"
  "length (moveBuffer (snd (LoadMoveBufferFromGCode env gb g92 lims st))) = length (moveBuffer st)"
  "length (lastPos (snd (LoadMoveBufferFromGCode env gb g92 lims st))) = length (lastPos st)"
  by (simp_all add: LoadMoveBufferFromGCode_def Let_def split_def gb_eqs)

lemma LoadMoveBufferFromGCode_failed:
  assumes "\<not> fst (load_extruders env gb g92 st)"
  shows "axisIsHomed (snd (LoadMoveBufferFromGCode env gb g92 lims st)) = axisIsHomed st"
    "lastPos (snd (LoadMoveBufferFromGCode env gb g92 lims st)) = lastPos st"
    "moveBuffer (snd (LoadMoveBufferFromGCode env gb g92 lims st)) = moveBuffer st"
  using assms
  by (simp_all add: LoadMoveBufferFromGCode_def load_extruders_def Let_def split_def gb_eqs platform_Message_def
      split: option.splits if_splits)

section \<open>The values of a list field\<close>

lemma skip_list_item_eq:
  "skip_list_item buf i
     = i + length (takeWhile (\<lambda>b. b \<noteq> NUL \<and> b \<noteq> CHR '' '' \<and> b \<noteq> LIST_SEPARATOR) (drop i buf))"
proof (induction buf i rule: skip_list_item.induct)
  case (1 buf rp)
  show ?case
  proof (cases "rp < length buf")
    case True
    then have d: "drop rp buf = buf ! rp # drop (Suc rp) buf" by (simp add: Cons_nth_drop_Suc)
    show ?thesis
      using True 1
      by (subst skip_list_item.simps) (simp add: d byte_at_def)
  next
    case False
    then show ?thesis
      by (subst skip_list_item.simps) (simp add: byte_at_def)
  qed
qed

lemma colon_starts_append:
  "colon_starts i (u @ v) = colon_starts i u @ colon_starts (i + length u) v"
  by (induction u arbitrary: i) simp_all

lemma colon_starts_none:
  "\<forall>b \<in> set u. b \<noteq> LIST_SEPARATOR \<Longrightarrow> colon_starts i u = []"
  by (induction u arbitrary: i) simp_all

lemma token_split:
  fixes buf :: "char list"
  defines "P \<equiv> (\<lambda>b. b \<noteq> NUL \<and> b \<noteq> CHR '' '')"
    and "Q \<equiv> (\<lambda>b. b \<noteq> NUL \<and> b \<noteq> CHR '' '' \<and> b \<noteq> LIST_SEPARATOR)"
  shows "takeWhile P (drop i buf)
     = takeWhile Q (drop i buf)
       @ (if byte_at buf (i + length (takeWhile Q (drop i buf))) = LIST_SEPARATOR
          then LIST_SEPARATOR # takeWhile P (drop (Suc (i + length (takeWhile Q (drop i buf)))) buf)
          else [])"
proof -
  define xs where "xs = drop i buf"
  have b: "byte_at buf (i + k) = (if k < length xs then xs ! k else NUL)" for k
    by (auto simp: byte_at_def xs_def)
  have dr: "drop (Suc (i + k)) buf = drop (Suc k) xs" for k
    by (simp add: xs_def add.commute)
  have "takeWhile P xs
     = takeWhile Q xs
       @ (if (if length (takeWhile Q xs) < length xs then xs ! length (takeWhile Q xs) else NUL) = LIST_SEPARATOR
          then LIST_SEPARATOR # takeWhile P (drop (Suc (length (takeWhile Q xs))) xs)
          else [])"
  proof (induction xs)
    case Nil
    then show ?case by (simp add: LIST_SEPARATOR_def NUL_def)
  next
    case (Cons x xs)
    then show ?case
      by (auto simp: P_def Q_def LIST_SEPARATOR_def NUL_def)
  qed
  then show ?thesis
    by (simp add: b dr xs_def[symmetric])
qed

lemma list_item_starts_rec:
  "list_item_starts buf p
     = Suc p # (if byte_at buf (skip_list_item buf (Suc p)) = LIST_SEPARATOR
                then list_item_starts buf (skip_list_item buf (Suc p)) else [])"
proof -
  let ?Q = "\<lambda>b. b \<noteq> NUL \<and> b \<noteq> CHR '' '' \<and> b \<noteq> LIST_SEPARATOR"
  let ?u = "takeWhile ?Q (drop (Suc p) buf)"
  have nc: "\<forall>b \<in> set ?u. b \<noteq> LIST_SEPARATOR"
    by (auto dest: set_takeWhileD)
  show ?thesis
    unfolding list_item_starts_def
    by (subst token_split)
       (simp add: skip_list_item_eq colon_starts_append colon_starts_none[OF nc])
qed

lemma list_item_starts_nonempty: "list_item_starts buf p \<noteq> []" "0 < length (list_item_starts buf p)"
  by (simp_all add: list_item_starts_def)

lemma list_item_starts_length: "\<exists>k. length (list_item_starts buf p) = Suc k"
  by (simp add: list_item_starts_def)

lemma GetFloatArray_loop_items:
  "GetFloatArray_loop buf n a rp
     = (if length a + length (list_item_starts buf rp) \<le> n
        then Some (a @ map (\<lambda>i. to_float (strtod (cstr_at buf i))) (list_item_starts buf rp))
        else None)"
proof (induction buf n a rp rule: GetFloatArray_loop.induct)
  case (1 buf n a rp)
  show ?case
  proof (cases "n \<le> length a")
    case True
    then show ?thesis
      using list_item_starts_length[of buf rp]
      by (subst GetFloatArray_loop.simps) auto
  next
    case False
    show ?thesis
    proof (cases "byte_at buf (skip_list_item buf (rp + 1)) = LIST_SEPARATOR")
      case sep: True
      have its: "list_item_starts buf rp = Suc rp # list_item_starts buf (skip_list_item buf (Suc rp))"
        using sep by (subst list_item_starts_rec) simp
      from 1[OF False refl refl] sep
      have ih: "GetFloatArray_loop buf n (a @ [to_float (strtod (cstr_at buf (Suc rp)))]) (skip_list_item buf (Suc rp))
         = (if Suc (length a) + length (list_item_starts buf (skip_list_item buf (Suc rp))) \<le> n
            then Some ((a @ [to_float (strtod (cstr_at buf (Suc rp)))])
                       @ map (\<lambda>i. to_float (strtod (cstr_at buf i))) (list_item_starts buf (skip_list_item buf (Suc rp))))
            else None)"
        by simp
      show ?thesis
        using False sep
        by (subst GetFloatArray_loop.simps) (simp add: Let_def ih its)
    next
      case nosep: False
      have its: "list_item_starts buf rp = [Suc rp]"
        using nosep by (subst list_item_starts_rec) simp
      show ?thesis
        using False nosep
        by (subst GetFloatArray_loop.simps) (simp add: Let_def its)
    qed
  qed
qed

lemma field_floats_nonempty: "field_floats c buf \<noteq> []" "0 < length (field_floats c buf)"
  by (simp_all add: field_floats_def list_item_starts_nonempty)

text \<open>\<open>GetFloatArray\<close> gives the values of the specification.\<close>

lemma E_values_supplied:
  assumes "field_seen EXTRUDE_LETTER (gcodeBuffer g)"
  shows "(snd (E_values n g) = n) = (E_supplied n (gcodeBuffer g) \<noteq> None)"
    "E_supplied n (gcodeBuffer g) = Some vs \<Longrightarrow> fst (E_values n g) = vs"
proof -
  let ?p = "Seen_scan EXTRUDE_LETTER (gcodeBuffer g) 0"
  from assms have p: "0 \<le> ?p" by (simp add: field_seen_def)
  let ?vs = "field_floats EXTRUDE_LETTER (gcodeBuffer g)"
  have l: "GetFloatArray_loop (gcodeBuffer g) n [] (nat ?p) = (if length ?vs \<le> n then Some ?vs else None)"
    by (simp add: GetFloatArray_loop_items field_floats_def)
  have e: "E_values n g
      = (case (if length ?vs \<le> n then Some ?vs else None) of
           None \<Rightarrow> ([], 0)
         | Some a \<Rightarrow> if length a = 1 \<and> 1 < n then (replicate n (hd a), n) else (a, length a))"
    using p by (simp add: E_values_def Seen_def GetFloatArray_def Let_def l split: option.splits)
  have pos: "0 < length ?vs" by (rule field_floats_nonempty)
  show "(snd (E_values n g) = n) = (E_supplied n (gcodeBuffer g) \<noteq> None)"
    using pos by (auto simp: e E_supplied_def Let_def)
  show "E_supplied n (gcodeBuffer g) = Some vs \<Longrightarrow> fst (E_values n g) = vs"
  proof -
    assume a: "E_supplied n (gcodeBuffer g) = Some vs"
    have one: "length ?vs = 1 \<Longrightarrow> ?vs = [hd ?vs]"
      by (cases ?vs) simp_all
    consider "n = 0" | "0 < n" "length ?vs = 1" "1 < n" | "n = 1" "length ?vs = 1"
      | "0 < n" "length ?vs \<noteq> 1" "length ?vs = n"
      using a by (cases "n = 0"; cases "n = 1"; cases "length ?vs = 1")
                 (auto simp: E_supplied_def Let_def split: if_splits)
    then show ?thesis
    proof cases
      case 1
      show ?thesis unfolding e using 1 a pos by (auto simp: E_supplied_def)
    next
      case 2
      show ?thesis unfolding e using 2 a by (simp add: E_supplied_def)
    next
      case 3
      show ?thesis unfolding e using 3 a one by (simp add: E_supplied_def)
    next
      case 4
      show ?thesis unfolding e using 4 a by (simp add: E_supplied_def)
    qed
  qed
qed

section \<open>The extrusion part without assumptions on the tool\<close>

text \<open>
  A drive that a tool lists more than once is written once for each listing; the last
  listing decides.
\<close>

lemma extruder_loop_last:
  assumes "k \<le> length tool" "j < k" "\<forall>i. j < i \<and> i < k \<longrightarrow> tool ! i \<noteq> tool ! j"
    and "tool ! j < length (lastPos st)" "tool ! j + AXES < length (moveBuffer st)"
  shows "g92 \<Longrightarrow> lastPos (foldl (extruder_step g92 tool em) st [0..<k]) ! (tool ! j)
                    = fmul (em ! j) (distanceScale st)"
    and "moveBuffer (foldl (extruder_step g92 tool em) st [0..<k]) ! (tool ! j + AXES)
           = (if g92 then zero_f
              else if drivesRelative st
                   then fmul (fmul (em ! j) (distanceScale st)) (extrusionFactors st ! (tool ! j))
              else fmul (fsub (fmul (em ! j) (distanceScale st))
                              (lastPos (foldl (extruder_step g92 tool em) st [0..<j]) ! (tool ! j)))
                        (extrusionFactors st ! (tool ! j)))"
proof -
  have "(g92 \<longrightarrow> lastPos (foldl (extruder_step g92 tool em) st [0..<k]) ! (tool ! j)
                    = fmul (em ! j) (distanceScale st))
      \<and> moveBuffer (foldl (extruder_step g92 tool em) st [0..<k]) ! (tool ! j + AXES)
           = (if g92 then zero_f
              else if drivesRelative st
                   then fmul (fmul (em ! j) (distanceScale st)) (extrusionFactors st ! (tool ! j))
              else fmul (fsub (fmul (em ! j) (distanceScale st))
                              (lastPos (foldl (extruder_step g92 tool em) st [0..<j]) ! (tool ! j)))
                        (extrusionFactors st ! (tool ! j)))"
    using assms(1,2,3)
  proof (induction k)
    case 0
    then show ?case by simp
  next
    case (Suc k)
    let ?s = "foldl (extruder_step g92 tool em) st [0..<k]"
    have fold: "foldl (extruder_step g92 tool em) st [0..<Suc k] = extruder_step g92 tool em ?s k" by simp
    have len: "tool ! j < length (lastPos ?s)" "tool ! j + AXES < length (moveBuffer ?s)"
      using assms(4,5) by simp_all
    show ?case
    proof (cases "j = k")
      case True
      show ?thesis
        unfolding fold using True len
        by (cases g92) (simp_all add: extruder_step_def Let_def)
    next
      case False
      with Suc.prems have j: "j < k" "k \<le> length tool" by simp_all
      have ne: "tool ! k \<noteq> tool ! j" using Suc.prems(3) j by simp
      have "\<forall>i. j < i \<and> i < k \<longrightarrow> tool ! i \<noteq> tool ! j" using Suc.prems(3) by simp
      from Suc.IH[OF j(2) j(1) this]
      have ih: "g92 \<longrightarrow> lastPos ?s ! (tool ! j) = fmul (em ! j) (distanceScale st)"
        "moveBuffer ?s ! (tool ! j + AXES)
           = (if g92 then zero_f
              else if drivesRelative st
                   then fmul (fmul (em ! j) (distanceScale st)) (extrusionFactors st ! (tool ! j))
              else fmul (fsub (fmul (em ! j) (distanceScale st))
                              (lastPos (foldl (extruder_step g92 tool em) st [0..<j]) ! (tool ! j)))
                        (extrusionFactors st ! (tool ! j)))"
        by simp_all
      show ?thesis
        unfolding fold using ne ih
        by (cases g92) (simp_all add: extruder_step_def Let_def)
    qed
  qed
  then show "g92 \<Longrightarrow> lastPos (foldl (extruder_step g92 tool em) st [0..<k]) ! (tool ! j)
                    = fmul (em ! j) (distanceScale st)"
    and "moveBuffer (foldl (extruder_step g92 tool em) st [0..<k]) ! (tool ! j + AXES)
           = (if g92 then zero_f
              else if drivesRelative st
                   then fmul (fmul (em ! j) (distanceScale st)) (extrusionFactors st ! (tool ! j))
              else fmul (fsub (fmul (em ! j) (distanceScale st))
                              (lastPos (foldl (extruder_step g92 tool em) st [0..<j]) ! (tool ! j)))
                        (extrusionFactors st ! (tool ! j)))"
    by simp_all
qed



lemma load_extruders_ok:
  "fst (load_extruders env gb g92 st) = E_servable env (gcodeBuffer (gbuf gb st))"
proof (cases "field_seen EXTRUDE_LETTER (gcodeBuffer (gbuf gb st))")
  case False
  then show ?thesis by (simp add: load_extruders_not_seen E_servable_def)
next
  case True
  then have s: "0 \<le> Seen_scan EXTRUDE_LETTER (gcodeBuffer (gbuf gb st)) 0"
    by (simp add: field_seen_def)
  have e: "fst (GetFloatArray n ((gbuf gb st)\<lparr>readPointer := Seen_scan EXTRUDE_LETTER (gcodeBuffer (gbuf gb st)) 0\<rparr>))
             = E_values n (gbuf gb st)" for n
    by (simp add: E_values_def Seen_def Let_def)
  show ?thesis
  proof (cases "GetCurrentTool env")
    case None
    then show ?thesis
      using True s by (simp add: load_extruders_def gb_eqs Let_def E_servable_def)
  next
    case (Some drives)
    have "fst (load_extruders env gb g92 st) = (snd (E_values (length drives) (gbuf gb st)) = length drives)"
      using s Some by (auto simp: load_extruders_def gb_eqs Let_def split_def e)
    then show ?thesis
      using True Some by (simp add: E_values_supplied(1)[OF True] E_servable_def)
  qed
qed

lemma load_extruders_state:
  assumes "field_seen EXTRUDE_LETTER (gcodeBuffer (gbuf gb st))" "GetCurrentTool env = Some drives"
    "E_supplied (length drives) (gcodeBuffer (gbuf gb st)) = Some vs"
  shows "snd (load_extruders env gb g92 st)
       = foldl (extruder_step g92 drives vs)
           ((snd (gb_GetFloatArray gb (length drives) (snd (gb_Seen gb EXTRUDE_LETTER st))))
              \<lparr>moveBuffer := foldl (\<lambda>m drive. m[drive := zero_f]) (moveBuffer st) [AXES..<DRIVES env]\<rparr>)
           [0..<length drives]"
proof -
  have c: "snd (E_values (length drives) (gbuf gb st)) = length drives"
    using assms(3) by (simp add: E_values_supplied(1)[OF assms(1)])
  have v: "fst (E_values (length drives) (gbuf gb st)) = vs"
    by (rule E_values_supplied(2)[OF assms(1,3)])
  show ?thesis
    using load_extruders_seen(2)[OF assms(1,2) c, of g92] by (simp only: v)
qed


text \<open>The extrusion part of a move.\<close>

lemma load_extruders_move:
  assumes seen: "field_seen EXTRUDE_LETTER (gcodeBuffer (gbuf gb st))" "GetCurrentTool env = Some drives"
    "E_supplied (length drives) (gcodeBuffer (gbuf gb st)) = Some vs"
    and wf: "\<forall>d \<in> set drives. d < DRIVES env - AXES"
      "length (lastPos st) = DRIVES env - AXES" "length (moveBuffer st) = DRIVES env + 1"
    and k: "k < length drives" "\<forall>j. k < j \<and> j < length drives \<longrightarrow> drives ! j \<noteq> drives ! k"
  shows "drivesRelative st \<Longrightarrow>
           moveBuffer (snd (load_extruders env gb False st)) ! (drives ! k + AXES)
             = fmul (fmul (vs ! k) (distanceScale st)) (extrusionFactors st ! (drives ! k))"
    and "\<not> drivesRelative st \<Longrightarrow> \<forall>j. j < k \<longrightarrow> drives ! j \<noteq> drives ! k \<Longrightarrow>
           moveBuffer (snd (load_extruders env gb False st)) ! (drives ! k + AXES)
             = fmul (fsub (fmul (vs ! k) (distanceScale st)) (lastPos st ! (drives ! k)))
                    (extrusionFactors st ! (drives ! k))"
proof -
  define s3 where "s3 = (snd (gb_GetFloatArray gb (length drives) (snd (gb_Seen gb EXTRUDE_LETTER st))))
              \<lparr>moveBuffer := foldl (\<lambda>m drive. m[drive := zero_f]) (moveBuffer st) [AXES..<DRIVES env]\<rparr>"
  have eq: "snd (load_extruders env gb False st) = foldl (extruder_step False drives vs) s3 [0..<length drives]"
    unfolding s3_def by (rule load_extruders_state[OF seen])
  have f: "lastPos s3 = lastPos st" "distanceScale s3 = distanceScale st" "drivesRelative s3 = drivesRelative st"
      "extrusionFactors s3 = extrusionFactors st" "length (moveBuffer s3) = DRIVES env + 1"
    using wf(3) by (simp_all add: s3_def gb_eqs)
  have d: "drives ! k < DRIVES env - AXES" using wf(1) k(1) by simp
  have bb: "drives ! k < length (lastPos s3)" "drives ! k + AXES < length (moveBuffer s3)"
    using d wf(2) f by simp_all
  note l = extruder_loop_last(2)[OF le_refl k(1) _ bb, of False vs]
  show "drivesRelative st \<Longrightarrow>
           moveBuffer (snd (load_extruders env gb False st)) ! (drives ! k + AXES)
             = fmul (fmul (vs ! k) (distanceScale st)) (extrusionFactors st ! (drives ! k))"
    using l k(2) by (simp add: eq f)
  assume a: "\<not> drivesRelative st" "\<forall>j. j < k \<longrightarrow> drives ! j \<noteq> drives ! k"
  then have "\<forall>e \<in> set [0..<k]. drives ! e \<noteq> drives ! k" by simp
  from extruder_loop_lastPos_other[OF this, of False vs s3]
  have "lastPos (foldl (extruder_step False drives vs) s3 [0..<k]) ! (drives ! k) = lastPos st ! (drives ! k)"
    by (simp add: f)
  then show "moveBuffer (snd (load_extruders env gb False st)) ! (drives ! k + AXES)
             = fmul (fsub (fmul (vs ! k) (distanceScale st)) (lastPos st ! (drives ! k)))
                    (extrusionFactors st ! (drives ! k))"
    using l k(2) a(1) by (simp add: eq f)
qed

section \<open>The axes\<close>

lemma E_values_cong: "gcodeBuffer g = gcodeBuffer g' \<Longrightarrow> fst (E_values n g) = fst (E_values n g')"
  "gcodeBuffer g = gcodeBuffer g' \<Longrightarrow> snd (E_values n g) = snd (E_values n g')"
  by (simp_all add: E_values_def Seen_def GetFloatArray_def Let_def split: option.splits)



lemma axis_step_move:
  "moveBuffer (axis_step env gb False lims st axis)
     = (if field_seen (GCODE_LETTERS ! axis) (gcodeBuffer (gbuf gb st))
        then (moveBuffer st)[axis :=
               (let v = fmul (field_float (GCODE_LETTERS ! axis) (gcodeBuffer (gbuf gb st))) (distanceScale st);
                    v1 = (if axesRelative st then fadd v (moveBuffer st ! axis) else v)
                in if lims \<and> axis < 2 \<and> axisIsHomed st ! axis
                   then (if fless v1 (AxisMinimum env axis) then AxisMinimum env axis
                         else if fgreater v1 (AxisMaximum env axis) then AxisMaximum env axis else v1)
                   else v1)]
        else moveBuffer st)"
  "axisIsHomed (axis_step env gb False lims st axis) = axisIsHomed st"
  by (simp_all add: axis_step_def gb_eqs Let_def field_seen_def field_float_def GetFValue_seen)

lemma axis_loop_homed [simp]:
  "axisIsHomed (foldl (axis_step env gb False lims) st xs) = axisIsHomed st"
  by (induction xs arbitrary: st) (simp_all add: axis_step_move)


section \<open>Setting up a move\<close>


lemma LoadMoveBufferFromGCode_lastPos_failed:
  "\<not> E_servable env (gcodeBuffer (gbuf gb st)) \<Longrightarrow>
     lastPos (snd (LoadMoveBufferFromGCode env gb g92 lims st)) = lastPos st
     \<and> moveBuffer (snd (LoadMoveBufferFromGCode env gb g92 lims st)) = moveBuffer st
     \<and> axisIsHomed (snd (LoadMoveBufferFromGCode env gb g92 lims st)) = axisIsHomed st"
  by (simp add: LoadMoveBufferFromGCode_failed load_extruders_ok)



section \<open>Facts about the example inputs\<close>

section \<open>Endstop moves\<close>










section \<open>G92\<close>











end
